theory Spec2Isabelle
  imports Complex_Main
begin

section \<open>Scalars and integer helpers\<close>

text \<open>
  The source computes with \<open>int\<close> (32 bits), \<open>float\<close> and \<open>double\<close>. Integer
  coordinates are modelled as mathematical integers; the conversions that saturate to the
  32-bit range are written out. A \<open>float\<close> or \<open>double\<close> value is the rational number
  it denotes (every finite float is one). \<open>f32\<close> is round-to-nearest-even onto 24-bit
  significands and \<open>f64\<close> onto 53-bit significands (exponent range not modelled). The
  model applies \<open>f32\<close> where a function of the sources narrows a value to \<open>float\<close> by
  a cast, to each float operation of \<open>downscale_step_count\<close> and to each product, sum and
  quotient of matrix entries in the matrix product and inverse; it applies \<open>f64\<close> to each
  double operation of \<open>Mapping::map\<close> and \<open>inverseMapRect\<close>. The double arithmetic of
  \<open>periodic_axis_transform\<close> is on integers that a double holds exactly.
\<close>

type_synonym scalar = rat

function bit_length :: "int \<Rightarrow> int" where
  "bit_length n = (if n \<le> 0 then 0 else 1 + bit_length (n div 2))"
  by pat_completeness auto
termination
  by (relation "measure nat") auto

declare bit_length.simps [simp del]

definition pow2 :: "int \<Rightarrow> rat" where
  "pow2 k = (if 0 \<le> k then 2 ^ nat k else 1 / 2 ^ nat (- k))"

definition round_half_even :: "rat \<Rightarrow> int" where
  "round_half_even y =
     (let n = \<lfloor>y\<rfloor>; d = y - of_int n
      in if d < 1 / 2 then n
         else if 1 / 2 < d then n + 1
         else if even n then n else n + 1)"

definition binary_exponent :: "rat \<Rightarrow> int" where
  \<comment> \<open>the \<open>e\<close> with \<open>2 ^ e \<le> x < 2 ^ (e + 1)\<close>, for \<open>0 < x\<close>\<close>
  "binary_exponent x =
     (let (a, b) = quotient_of x;
          e0 = bit_length a - bit_length b
      in if pow2 e0 \<le> x then e0 else e0 - 1)"

definition f32 :: "rat \<Rightarrow> scalar" where
  "f32 x =
     (if x = 0 then 0
      else let ulp = pow2 (binary_exponent \<bar>x\<bar> - 23)
           in sgn x * of_int (round_half_even (\<bar>x\<bar> / ulp)) * ulp)"

definition f64 :: "rat \<Rightarrow> rat" where
  "f64 x =
     (if x = 0 then 0
      else let ulp = pow2 (binary_exponent \<bar>x\<bar> - 52)
           in sgn x * of_int (round_half_even (\<bar>x\<bar> / ulp)) * ulp)"

definition SK_MaxS32 :: int where
  "SK_MaxS32 = 2147483647"

definition SK_MinS32 :: int where
  "SK_MinS32 = - SK_MaxS32"

definition SK_MaxS32FitsInFloat :: int where
  "SK_MaxS32FitsInFloat = 2147483520"

definition SK_MinS32FitsInFloat :: int where
  "SK_MinS32FitsInFloat = - SK_MaxS32FitsInFloat"

text \<open>
  Modelled from the spec: the saturating conversions of \<open>SkFloatingPoint.h\<close> are not among
  the sources; a value outside the 32-bit range is pinned to the nearest bound before the
  cast.
\<close>

definition sk_double_saturate2int :: "rat \<Rightarrow> int" where
  "sk_double_saturate2int x =
     (let x1 = (if x < of_int SK_MaxS32 then x else of_int SK_MaxS32);
          x2 = (if of_int SK_MinS32 < x1 then x1 else of_int SK_MinS32)
      in if 0 \<le> x2 then \<lfloor>x2\<rfloor> else \<lceil>x2\<rceil>)"

definition sk_float_saturate2int :: "scalar \<Rightarrow> int" where
  "sk_float_saturate2int x =
     (let x1 = (if x < of_int SK_MaxS32FitsInFloat then x else of_int SK_MaxS32FitsInFloat);
          x2 = (if of_int SK_MinS32FitsInFloat < x1 then x1 else of_int SK_MinS32FitsInFloat)
      in if 0 \<le> x2 then \<lfloor>x2\<rfloor> else \<lceil>x2\<rceil>)"

definition sk_double_floor2int :: "rat \<Rightarrow> int" where
  "sk_double_floor2int x = sk_double_saturate2int (of_int \<lfloor>x\<rfloor>)"

definition sk_double_ceil2int :: "rat \<Rightarrow> int" where
  "sk_double_ceil2int x = sk_double_saturate2int (of_int \<lceil>x\<rceil>)"

definition sk_float_ceil2int :: "scalar \<Rightarrow> int" where
  "sk_float_ceil2int x = sk_float_saturate2int (of_int \<lceil>x\<rceil>)"

definition SkCLZ :: "int \<Rightarrow> int" where
  \<comment> \<open>leading zeros of a 32-bit unsigned value\<close>
  "SkCLZ x = 32 - bit_length (x mod 2 ^ 32)"

definition SkNextLog2 :: "int \<Rightarrow> int" where
  \<comment> \<open>\<open>32 - SkCLZ(value - 1)\<close>, the subtraction in unsigned 32 bits\<close>
  "SkNextLog2 v = 32 - SkCLZ (v - 1)"

definition kRoundEpsilon :: scalar where
  "kRoundEpsilon = f32 (1 / 1000)"

section \<open>Downscale step count\<close>

definition kMultiPassLimit :: scalar where
  "kMultiPassLimit = f32 (8 / 10)"

definition kNearIdentityLimit :: scalar where
  "kNearIdentityLimit = f32 (1 - kRoundEpsilon)"

definition downscale_step_count :: "scalar \<Rightarrow> int" where
  "downscale_step_count netScaleFactor =
     (let steps = SkNextLog2 (sk_float_ceil2int (f32 (1 / netScaleFactor)))
      in if 0 < steps then
           let finalStepScale = f32 (netScaleFactor * of_int (2 ^ nat (steps - 1)));
               limit = (if steps = 1 then kNearIdentityLimit else kMultiPassLimit)
           in if limit \<le> finalStepScale then steps - 1 else steps
         else steps)"

section \<open>Integer rectangles\<close>

datatype SkTileMode = kClamp | kRepeat | kMirror | kDecal

record 'a rect_ltrb =
  fLeft :: 'a
  fTop :: 'a
  fRight :: 'a
  fBottom :: 'a

type_synonym SkIRect = "int rect_ltrb"

type_synonym SkRect = "scalar rect_ltrb"

record SkIPoint =
  fX :: int
  fY :: int

text \<open>
  Modelled from the spec: \<open>SkIRect\<close> is declared in a header that is not among the sources.
  Rectangles are half-open; a rectangle is empty iff \<open>right \<le> left\<close> or
  \<open>bottom \<le> top\<close>; \<open>intersect\<close> reports failure and leaves the receiver alone when the
  intersection is empty; \<open>contains\<close> is false as soon as either rectangle is empty.
\<close>

definition MakeLTRB :: "int \<Rightarrow> int \<Rightarrow> int \<Rightarrow> int \<Rightarrow> SkIRect" where
  "MakeLTRB l t r b = \<lparr>fLeft = l, fTop = t, fRight = r, fBottom = b\<rparr>"

definition MakeXYWH :: "int \<Rightarrow> int \<Rightarrow> int \<Rightarrow> int \<Rightarrow> SkIRect" where
  "MakeXYWH x y w h = MakeLTRB x y (x + w) (y + h)"

definition MakeEmpty :: SkIRect where
  "MakeEmpty = MakeLTRB 0 0 0 0"

definition isEmpty :: "SkIRect \<Rightarrow> bool" where
  "isEmpty r \<longleftrightarrow> fRight r \<le> fLeft r \<or> fBottom r \<le> fTop r"

definition rect_width :: "SkIRect \<Rightarrow> int" where
  "rect_width r = fRight r - fLeft r"

definition rect_height :: "SkIRect \<Rightarrow> int" where
  "rect_height r = fBottom r - fTop r"

definition topLeft :: "SkIRect \<Rightarrow> SkIPoint" where
  "topLeft r = \<lparr>fX = fLeft r, fY = fTop r\<rparr>"

definition intersect :: "SkIRect \<Rightarrow> SkIRect \<Rightarrow> SkIRect option" where
  \<comment> \<open>\<open>None\<close> is the \<open>false\<close> return, on which the receiver keeps its value\<close>
  "intersect a b =
     (let tmp = MakeLTRB (max (fLeft a) (fLeft b)) (max (fTop a) (fTop b))
                         (min (fRight a) (fRight b)) (min (fBottom a) (fBottom b))
      in if isEmpty tmp then None else Some tmp)"

definition contains :: "SkIRect \<Rightarrow> SkIRect \<Rightarrow> bool" where
  "contains a r \<longleftrightarrow>
     \<not> isEmpty r \<and> \<not> isEmpty a \<and> fLeft a \<le> fLeft r \<and> fTop a \<le> fTop r \<and>
     fRight r \<le> fRight a \<and> fBottom r \<le> fBottom a"

definition outset :: "SkIRect \<Rightarrow> int \<Rightarrow> int \<Rightarrow> SkIRect" where
  "outset r dx dy = MakeLTRB (fLeft r - dx) (fTop r - dy) (fRight r + dx) (fBottom r + dy)"

definition SkTPin :: "int \<Rightarrow> int \<Rightarrow> int \<Rightarrow> int" where
  "SkTPin x lo hi = max lo (min x hi)"

text \<open>
  Modelled from the spec: \<open>SkRectPriv::ClosestDisjointEdge\<close> is not among the sources. It
  returns the row, column or corner of \<open>src\<close> closest to \<open>dst\<close>: on an axis where \<open>src\<close>
  lies wholly before \<open>dst\<close> its last pixel, where it lies wholly after its first pixel,
  and otherwise the part of \<open>src\<close> within \<open>dst\<close> on that axis.
\<close>

definition ClosestDisjointEdge :: "SkIRect \<Rightarrow> SkIRect \<Rightarrow> SkIRect" where
  "ClosestDisjointEdge src dst =
     (if isEmpty src \<or> isEmpty dst then MakeEmpty
      else
        let (l, r) =
              (if fRight src \<le> fLeft dst then (fRight src - 1, fRight src)
               else if fRight dst \<le> fLeft src then (fLeft src, fLeft src + 1)
               else (SkTPin (fLeft src) (fLeft dst) (fRight dst),
                     SkTPin (fRight src) (fLeft dst) (fRight dst)));
            (t, b) =
              (if fBottom src \<le> fTop dst then (fBottom src - 1, fBottom src)
               else if fBottom dst \<le> fTop src then (fTop src, fTop src + 1)
               else (SkTPin (fTop src) (fTop dst) (fBottom dst),
                     SkTPin (fBottom src) (fTop dst) (fBottom dst)))
        in MakeLTRB l t r b)"

definition relevantSubset :: "SkIRect \<Rightarrow> SkIRect \<Rightarrow> SkTileMode \<Rightarrow> SkIRect" where
  "relevantSubset this dstRect tileMode =
     (if tileMode = kDecal \<or> tileMode = kClamp then
        (case intersect this dstRect of
           Some fittedSrc \<Rightarrow> fittedSrc
         | None \<Rightarrow>
             if tileMode = kDecal then MakeEmpty
             else ClosestDisjointEdge this dstRect)
      else this)"

section \<open>Float rectangles and matrices\<close>

text \<open>
  Modelled from the spec: \<open>SkRect\<close> and \<open>SkMatrix\<close> are declared in headers that are not
  among the sources. A matrix is its nine entries, row by row; \<open>Concat a b\<close> is the matrix
  product (it applies \<open>b\<close> first); a matrix is scale-translate iff it has no skew and no
  perspective. The entries are floats, so the product and the inverse round every product,
  sum and quotient of entries to \<open>float\<close>; an identity factor is returned as it is, two
  scale-translate factors multiply scale by scale, and a scale-translate matrix is inverted
  scale by scale (a pure translation by negation).
\<close>

definition SkRect_Make :: "SkIRect \<Rightarrow> SkRect" where
  "SkRect_Make r =
     \<lparr>fLeft = of_int (fLeft r), fTop = of_int (fTop r),
      fRight = of_int (fRight r), fBottom = of_int (fBottom r)\<rparr>"

definition SkRect_isEmpty :: "SkRect \<Rightarrow> bool" where
  "SkRect_isEmpty r \<longleftrightarrow> \<not> (fLeft r < fRight r \<and> fTop r < fBottom r)"

definition makeInset :: "SkRect \<Rightarrow> scalar \<Rightarrow> scalar \<Rightarrow> SkRect" where
  "makeInset r dx dy =
     \<lparr>fLeft = fLeft r + dx, fTop = fTop r + dy, fRight = fRight r - dx, fBottom = fBottom r - dy\<rparr>"

definition sk_float_floor2int :: "scalar \<Rightarrow> int" where
  "sk_float_floor2int x = sk_float_saturate2int (of_int \<lfloor>x\<rfloor>)"

definition roundOut :: "SkRect \<Rightarrow> SkIRect" where
  "roundOut r =
     MakeLTRB (sk_float_floor2int (fLeft r)) (sk_float_floor2int (fTop r))
              (sk_float_ceil2int (fRight r)) (sk_float_ceil2int (fBottom r))"

definition RoundOut :: "SkRect \<Rightarrow> SkIRect" where
  "RoundOut r = roundOut (makeInset r kRoundEpsilon kRoundEpsilon)"

record SkMatrix =
  kMScaleX :: scalar
  kMSkewX :: scalar
  kMTransX :: scalar
  kMSkewY :: scalar
  kMScaleY :: scalar
  kMTransY :: scalar
  kMPersp0 :: scalar
  kMPersp1 :: scalar
  kMPersp2 :: scalar

definition MakeAll ::
  "scalar \<Rightarrow> scalar \<Rightarrow> scalar \<Rightarrow> scalar \<Rightarrow> scalar \<Rightarrow> scalar \<Rightarrow> scalar \<Rightarrow> scalar \<Rightarrow> scalar \<Rightarrow> SkMatrix"
where
  "MakeAll a b c d e f g h i =
     \<lparr>kMScaleX = a, kMSkewX = b, kMTransX = c, kMSkewY = d, kMScaleY = e, kMTransY = f,
      kMPersp0 = g, kMPersp1 = h, kMPersp2 = i\<rparr>"

definition SkMatrix_I :: SkMatrix where
  "SkMatrix_I = MakeAll 1 0 0 0 1 0 0 0 1"

definition setScaleTranslate :: "scalar \<Rightarrow> scalar \<Rightarrow> scalar \<Rightarrow> scalar \<Rightarrow> SkMatrix" where
  "setScaleTranslate sx sy tx ty = MakeAll sx 0 tx 0 sy ty 0 0 1"

definition Translate :: "scalar \<Rightarrow> scalar \<Rightarrow> SkMatrix" where
  "Translate dx dy = setScaleTranslate 1 1 dx dy"

definition entries :: "SkMatrix \<Rightarrow> scalar list" where
  "entries m =
     [kMScaleX m, kMSkewX m, kMTransX m, kMSkewY m, kMScaleY m, kMTransY m,
      kMPersp0 m, kMPersp1 m, kMPersp2 m]"

definition isScaleTranslate :: "SkMatrix \<Rightarrow> bool" where
  "isScaleTranslate m \<longleftrightarrow>
     kMSkewX m = 0 \<and> kMSkewY m = 0 \<and> kMPersp0 m = 0 \<and> kMPersp1 m = 0 \<and> kMPersp2 m = 1"

definition rowcol3 ::
  "scalar \<Rightarrow> scalar \<Rightarrow> scalar \<Rightarrow> scalar \<Rightarrow> scalar \<Rightarrow> scalar \<Rightarrow> scalar"
where
  \<comment> \<open>a row times a column, in float arithmetic\<close>
  "rowcol3 r0 r1 r2 c0 c1 c2 = f32 (f32 (f32 (r0 * c0) + f32 (r1 * c1)) + f32 (r2 * c2))"

definition Concat :: "SkMatrix \<Rightarrow> SkMatrix \<Rightarrow> SkMatrix" where
  "Concat a b =
     (if a = SkMatrix_I then b
      else if b = SkMatrix_I then a
      else if isScaleTranslate a \<and> isScaleTranslate b then
        setScaleTranslate (f32 (kMScaleX a * kMScaleX b)) (f32 (kMScaleY a * kMScaleY b))
          (f32 (f32 (kMScaleX a * kMTransX b) + kMTransX a))
          (f32 (f32 (kMScaleY a * kMTransY b) + kMTransY a))
      else
        MakeAll
          (rowcol3 (kMScaleX a) (kMSkewX a) (kMTransX a) (kMScaleX b) (kMSkewY b) (kMPersp0 b))
          (rowcol3 (kMScaleX a) (kMSkewX a) (kMTransX a) (kMSkewX b) (kMScaleY b) (kMPersp1 b))
          (rowcol3 (kMScaleX a) (kMSkewX a) (kMTransX a) (kMTransX b) (kMTransY b) (kMPersp2 b))
          (rowcol3 (kMSkewY a) (kMScaleY a) (kMTransY a) (kMScaleX b) (kMSkewY b) (kMPersp0 b))
          (rowcol3 (kMSkewY a) (kMScaleY a) (kMTransY a) (kMSkewX b) (kMScaleY b) (kMPersp1 b))
          (rowcol3 (kMSkewY a) (kMScaleY a) (kMTransY a) (kMTransX b) (kMTransY b) (kMPersp2 b))
          (rowcol3 (kMPersp0 a) (kMPersp1 a) (kMPersp2 a) (kMScaleX b) (kMSkewY b) (kMPersp0 b))
          (rowcol3 (kMPersp0 a) (kMPersp1 a) (kMPersp2 a) (kMSkewX b) (kMScaleY b) (kMPersp1 b))
          (rowcol3 (kMPersp0 a) (kMPersp1 a) (kMPersp2 a) (kMTransX b) (kMTransY b) (kMPersp2 b)))"

definition postConcat :: "SkMatrix \<Rightarrow> SkMatrix \<Rightarrow> SkMatrix" where
  \<comment> \<open>\<open>this.postConcat(m)\<close> leaves \<open>m \<cdot> this\<close> in the receiver\<close>
  "postConcat this m = Concat m this"

definition determinant :: "SkMatrix \<Rightarrow> scalar" where
  "determinant m =
     kMScaleX m * (kMScaleY m * kMPersp2 m - kMTransY m * kMPersp1 m)
     - kMSkewX m * (kMSkewY m * kMPersp2 m - kMTransY m * kMPersp0 m)
     + kMTransX m * (kMSkewY m * kMPersp1 m - kMScaleY m * kMPersp0 m)"

definition invert :: "SkMatrix \<Rightarrow> SkMatrix option" where
  "invert m =
     (if isScaleTranslate m then
        (if kMScaleX m = 1 \<and> kMScaleY m = 1 then
           Some (Translate (- kMTransX m) (- kMTransY m))
         else if kMScaleX m = 0 \<or> kMScaleY m = 0 then None
         else
           let invX = f32 (1 / kMScaleX m);
               invY = f32 (1 / kMScaleY m)
           in Some (setScaleTranslate invX invY
                      (f32 (- kMTransX m * invX)) (f32 (- kMTransY m * invY))))
      else
        let d = determinant m
        in if d = 0 then None
           else Some (MakeAll
             (f32 ((kMScaleY m * kMPersp2 m - kMTransY m * kMPersp1 m) / d))
             (f32 ((kMTransX m * kMPersp1 m - kMSkewX m * kMPersp2 m) / d))
             (f32 ((kMSkewX m * kMTransY m - kMTransX m * kMScaleY m) / d))
             (f32 ((kMTransY m * kMPersp0 m - kMSkewY m * kMPersp2 m) / d))
             (f32 ((kMScaleX m * kMPersp2 m - kMTransX m * kMPersp0 m) / d))
             (f32 ((kMTransX m * kMSkewY m - kMScaleX m * kMTransY m) / d))
             (f32 ((kMSkewY m * kMPersp1 m - kMScaleY m * kMPersp0 m) / d))
             (f32 ((kMSkewX m * kMPersp0 m - kMScaleX m * kMPersp1 m) / d))
             (f32 ((kMScaleX m * kMScaleY m - kMSkewX m * kMSkewY m) / d))))"

definition mapXY :: "SkMatrix \<Rightarrow> scalar \<Rightarrow> scalar \<Rightarrow> scalar \<times> scalar" where
  "mapXY m x y =
     (let w = kMPersp0 m * x + kMPersp1 m * y + kMPersp2 m;
          z = (if w = 0 then 1 else w)
      in ((kMScaleX m * x + kMSkewX m * y + kMTransX m) / z,
          (kMSkewY m * x + kMScaleY m * y + kMTransY m) / z))"

definition min_list4 :: "scalar \<Rightarrow> scalar \<Rightarrow> scalar \<Rightarrow> scalar \<Rightarrow> scalar" where
  "min_list4 a b c d = min (min a b) (min c d)"

definition max_list4 :: "scalar \<Rightarrow> scalar \<Rightarrow> scalar \<Rightarrow> scalar \<Rightarrow> scalar" where
  "max_list4 a b c d = max (max a b) (max c d)"

definition SkMatrix_mapRect :: "SkMatrix \<Rightarrow> SkRect \<Rightarrow> SkRect" where
  \<comment> \<open>bounds of the four mapped corners; clipping of a perspective quad is not modelled\<close>
  "SkMatrix_mapRect m r =
     (let (x0, y0) = mapXY m (fLeft r) (fTop r);
          (x1, y1) = mapXY m (fRight r) (fTop r);
          (x2, y2) = mapXY m (fRight r) (fBottom r);
          (x3, y3) = mapXY m (fLeft r) (fBottom r)
      in \<lparr>fLeft = min_list4 x0 x1 x2 x3, fTop = min_list4 y0 y1 y2 y3,
          fRight = max_list4 x0 x1 x2 x3, fBottom = max_list4 y0 y1 y2 y3\<rparr>)"

definition InverseMapRect :: "SkMatrix \<Rightarrow> SkRect \<Rightarrow> SkRect option" where
  "InverseMapRect m r =
     (case invert m of None \<Rightarrow> None | Some inverse_m \<Rightarrow> Some (SkMatrix_mapRect inverse_m r))"

definition SkScalarNearlyEqual :: "scalar \<Rightarrow> scalar \<Rightarrow> scalar \<Rightarrow> bool" where
  "SkScalarNearlyEqual x y tolerance \<longleftrightarrow> \<bar>x - y\<bar> \<le> tolerance"

definition SkScalarRoundToScalar :: "scalar \<Rightarrow> scalar" where
  "SkScalarRoundToScalar x = of_int \<lfloor>x + 1 / 2\<rfloor>"

definition sk_ieee_float_divide :: "scalar \<Rightarrow> scalar \<Rightarrow> scalar" where
  \<comment> \<open>a zero divisor gives an infinity or a NaN in the source and 0 here\<close>
  "sk_ieee_float_divide n d = n / d"

definition is_nearly_integer_translation :: "SkMatrix \<Rightarrow> SkIPoint option" where
  \<comment> \<open>\<open>Some\<close> carries the \<open>out\<close> parameter of a \<open>true\<close> return\<close>
  "is_nearly_integer_translation m =
     (let tx = SkScalarRoundToScalar (sk_ieee_float_divide (kMTransX m) (kMPersp2 m));
          ty = SkScalarRoundToScalar (sk_ieee_float_divide (kMTransY m) (kMPersp2 m));
          expected = MakeAll 1 0 tx 0 1 ty 0 0 1
      in if list_all (\<lambda>(e, a). SkScalarNearlyEqual e a kRoundEpsilon)
              (zip (entries expected) (entries m))
         then Some \<lparr>fX = \<lfloor>tx\<rfloor>, fY = \<lfloor>ty\<rfloor>\<rparr>
         else None)"

section \<open>Mapping\<close>

definition map_SkIRect :: "SkIRect \<Rightarrow> SkMatrix \<Rightarrow> SkIRect" where
  "map_SkIRect geom matrix =
     (if isEmpty geom then MakeEmpty
      else if isScaleTranslate matrix then
        let l = f64 (f64 (kMScaleX matrix * of_int (fLeft geom)) + kMTransX matrix);
            r = f64 (f64 (kMScaleX matrix * of_int (fRight geom)) + kMTransX matrix);
            t = f64 (f64 (kMScaleY matrix * of_int (fTop geom)) + kMTransY matrix);
            b = f64 (f64 (kMScaleY matrix * of_int (fBottom geom)) + kMTransY matrix)
        in MakeLTRB (sk_double_floor2int (f64 (min l r + kRoundEpsilon)))
                    (sk_double_floor2int (f64 (min t b + kRoundEpsilon)))
                    (sk_double_ceil2int (f64 (max l r - kRoundEpsilon)))
                    (sk_double_ceil2int (f64 (max t b - kRoundEpsilon)))
      else RoundOut (SkMatrix_mapRect matrix (SkRect_Make geom)))"

definition mapRect :: "SkMatrix \<Rightarrow> SkIRect \<Rightarrow> SkIRect" where
  "mapRect fData r = map_SkIRect r fData"

definition inverseMapRect :: "SkMatrix \<Rightarrow> SkIRect \<Rightarrow> SkIRect option" where
  \<comment> \<open>\<open>Some out\<close> is a \<open>true\<close> return, \<open>None\<close> a \<open>false\<close> one\<close>
  "inverseMapRect fData rect =
     (if isEmpty rect then Some MakeEmpty
      else if isScaleTranslate fData then
        if kMScaleX fData = 0 \<or> kMScaleY fData = 0 then None
        else
          let l = f64 (f64 (of_int (fLeft rect) - kMTransX fData) / kMScaleX fData);
              r = f64 (f64 (of_int (fRight rect) - kMTransX fData) / kMScaleX fData);
              t = f64 (f64 (of_int (fTop rect) - kMTransY fData) / kMScaleY fData);
              b = f64 (f64 (of_int (fBottom rect) - kMTransY fData) / kMScaleY fData)
          in Some (MakeLTRB (sk_double_floor2int (f64 (min l r + kRoundEpsilon)))
                            (sk_double_floor2int (f64 (min t b + kRoundEpsilon)))
                            (sk_double_ceil2int (f64 (max l r - kRoundEpsilon)))
                            (sk_double_ceil2int (f64 (max t b - kRoundEpsilon))))
      else
        (case InverseMapRect fData (SkRect_Make rect) of
           Some mapped \<Rightarrow> Some (RoundOut mapped)
         | None \<Rightarrow> None))"

section \<open>Periodic tiling as a transform\<close>

definition floor_quotient2int :: "rat \<Rightarrow> rat \<Rightarrow> int" where
  \<comment> \<open>\<open>sk_double_floor2int(n / d)\<close>; a zero divisor gives an infinity or a NaN,
      which saturate\<close>
  "floor_quotient2int n d =
     (if d = 0 then (if n < 0 then SK_MinS32 else SK_MaxS32)
      else sk_double_floor2int (n / d))"

definition ceil_quotient2int :: "rat \<Rightarrow> rat \<Rightarrow> int" where
  "ceil_quotient2int n d =
     (if d = 0 then (if n < 0 then SK_MinS32 else SK_MaxS32)
      else sk_double_ceil2int (n / d))"

definition periodic_axis_transform :: "SkTileMode \<Rightarrow> SkIRect \<Rightarrow> SkIRect \<Rightarrow> SkMatrix option" where
  "periodic_axis_transform tileMode crop output =
     (if tileMode = kClamp \<or> tileMode = kDecal then None
      else
        let cropL = (of_int (fLeft crop) :: rat);
            cropT = (of_int (fTop crop) :: rat);
            cropWidth = of_int (fRight crop) - cropL;
            cropHeight = of_int (fBottom crop) - cropT;
            periodL = floor_quotient2int (of_int (fLeft output) - cropL) cropWidth;
            periodT = floor_quotient2int (of_int (fTop output) - cropT) cropHeight;
            periodR = ceil_quotient2int (of_int (fRight output) - cropL) cropWidth;
            periodB = ceil_quotient2int (of_int (fBottom output) - cropT) cropHeight
        in if periodR - periodL \<le> 1 \<and> periodB - periodT \<le> 1 then
             let flipX = (tileMode = kMirror \<and> periodL mod 2 \<noteq> 0);
                 flipY = (tileMode = kMirror \<and> periodT mod 2 \<noteq> 0);
                 sx = (if flipX then - 1 else 1 :: scalar);
                 sy = (if flipY then - 1 else 1 :: scalar);
                 tx0 = (if flipX then cropWidth - (- cropL) else - cropL);
                 ty0 = (if flipY then cropHeight - (- cropT) else - cropT);
                 tx = tx0 + (of_int periodL * cropWidth + cropL);
                 ty = ty0 + (of_int periodT * cropHeight + cropT)
             in if f32 (of_int (sk_double_saturate2int tx)) \<noteq> f32 tx \<or>
                   f32 (of_int (sk_double_saturate2int ty)) \<noteq> f32 ty
                then None
                else Some (setScaleTranslate sx sy (f32 tx) (f32 ty))
           else None)"

section \<open>FilterResult\<close>

datatype SkFilterMode = kNearest | kLinear

datatype SkMipmapMode = kNone_Mipmap | kNearest_Mipmap | kLinear_Mipmap

record SkSamplingOptions =
  maxAniso :: int
  useCubic :: bool
  cubicB :: scalar
  cubicC :: scalar
  filter_mode :: SkFilterMode
  mipmap :: SkMipmapMode

definition kDefaultSampling :: SkSamplingOptions where
  "kDefaultSampling =
     \<lparr>maxAniso = 0, useCubic = False, cubicB = 0, cubicC = 0, filter_mode = kLinear,
      mipmap = kNone_Mipmap\<rparr>"

definition Aniso :: "int \<Rightarrow> SkSamplingOptions" where
  "Aniso maxAniso' =
     \<lparr>maxAniso = max maxAniso' 1, useCubic = False, cubicB = 0, cubicC = 0,
      filter_mode = kNearest, mipmap = kNone_Mipmap\<rparr>"

definition isAniso :: "SkSamplingOptions \<Rightarrow> bool" where
  "isAniso s \<longleftrightarrow> maxAniso s \<noteq> 0"

record SkColor4f =
  fR :: scalar
  fG :: scalar
  fB :: scalar
  fA :: scalar

definition kTransparent :: SkColor4f where
  "kTransparent = \<lparr>fR = 0, fG = 0, fB = 0, fA = 0\<rparr>"

text \<open>
  Modelled from the spec: the colour filter classes are not among the sources. A colour
  filter is the function on colours that it computes; a null \<open>sk_sp\<close> is \<open>None\<close>; a filter
  affects transparent black iff it maps it to another colour; \<open>Compose outer inner\<close> runs
  \<open>inner\<close> first, and a null argument leaves the other filter.
\<close>

type_synonym SkColorFilter = "SkColor4f \<Rightarrow> SkColor4f"

definition affectsTransparentBlack :: "SkColorFilter \<Rightarrow> bool" where
  "affectsTransparentBlack cf \<longleftrightarrow> cf kTransparent \<noteq> kTransparent"

definition Compose :: "SkColorFilter option \<Rightarrow> SkColorFilter option \<Rightarrow> SkColorFilter option" where
  "Compose outer inner =
     (case outer of
        None \<Rightarrow> inner
      | Some f \<Rightarrow> (case inner of None \<Rightarrow> Some f | Some g \<Rightarrow> Some (\<lambda>x. f (g x))))"

text \<open>
  Modelled from the spec: the special image class is not among the sources. An image is a
  subset of a backing store; \<open>'p\<close> identifies the pixels of the store. \<open>makeSubset\<close> takes a
  rectangle relative to the image and shares the store.
\<close>

record 'p SkSpecialImage =
  pixels :: 'p
  subset :: SkIRect

definition image_width :: "'p SkSpecialImage \<Rightarrow> int" where
  "image_width img = rect_width (subset img)"

definition image_height :: "'p SkSpecialImage \<Rightarrow> int" where
  "image_height img = rect_height (subset img)"

definition makeSubset :: "'p SkSpecialImage \<Rightarrow> SkIRect \<Rightarrow> 'p SkSpecialImage" where
  "makeSubset img r =
     img\<lparr>subset :=
       MakeLTRB (fLeft r + fLeft (subset img)) (fTop r + fTop (subset img))
                (fRight r + fLeft (subset img)) (fBottom r + fTop (subset img))\<rparr>"

record 'p FilterResult =
  fImage :: "'p SkSpecialImage option"
  fSamplingOptions :: SkSamplingOptions
  fTileMode :: SkTileMode
  fTransform :: SkMatrix
  fColorFilter :: "SkColorFilter option"
  fLayerBounds :: SkIRect

text \<open>
  Modelled from the spec: the constructors of \<open>FilterResult\<close> are declared in a header that
  is not among the sources. The default-constructed result has no image, no colour filter
  and empty layer bounds; an image placed at an origin is decal-tiled, translated to the
  origin and bounded by its translated pixel rectangle. The translation is an \<open>SkMatrix\<close>,
  so the integer origin is stored as floats.
\<close>

definition FilterResult_of :: "'p SkSpecialImage option \<times> SkIPoint \<Rightarrow> 'p FilterResult" where
  "FilterResult_of p =
     (case p of (img, origin) \<Rightarrow>
        \<lparr>fImage = img,
         fSamplingOptions = kDefaultSampling,
         fTileMode = kDecal,
         fTransform = Translate (f32 (of_int (fX origin))) (f32 (of_int (fY origin))),
         fColorFilter = None,
         fLayerBounds =
           mapRect (Translate (f32 (of_int (fX origin))) (f32 (of_int (fY origin))))
             (case img of
                None \<Rightarrow> MakeEmpty
              | Some im \<Rightarrow> MakeXYWH 0 0 (image_width im) (image_height im))\<rparr>)"

definition origin0 :: SkIPoint where
  "origin0 = \<lparr>fX = 0, fY = 0\<rparr>"

definition FilterResult_empty :: "'p FilterResult" where
  "FilterResult_empty = FilterResult_of (None, origin0)"

text \<open>
  The context of an evaluation. Beside the desired output it stands for the collaborators
  that are not among the sources, each as the function the core calls: whether the backend
  can allocate a device of a size; the pixels that a draw leaves in a fresh surface (the
  receiver drawn into given bounds, a colour painted, the receiver drawn through a scale
  matrix, an image downsampled); whether an image has the colour type and colour space of
  the context; and \<open>SkRectPriv::QuadContainsRect\<close>. Theorems hold for every choice of
  these functions.
\<close>

record 'p Context =
  desiredOutput :: SkIRect
  makeDevice :: "int \<Rightarrow> int \<Rightarrow> bool"
  drawn :: "'p FilterResult \<Rightarrow> SkIRect \<Rightarrow> 'p"
  painted :: "SkColor4f \<Rightarrow> 'p"
  drawnScaled :: "'p FilterResult \<Rightarrow> SkMatrix \<Rightarrow> SkIRect \<Rightarrow> 'p"
  downsampled :: "'p SkSpecialImage \<Rightarrow> SkTileMode \<Rightarrow> SkIPoint \<Rightarrow> SkMatrix \<Rightarrow> SkIRect \<Rightarrow> 'p"
  sameColorFormat :: "'p SkSpecialImage \<Rightarrow> bool"
  QuadContainsRect :: "SkMatrix \<Rightarrow> SkRect \<Rightarrow> SkRect \<Rightarrow> scalar \<Rightarrow> bool"

type_synonym Stats = nat \<comment> \<open>the counter \<open>fNumOffscreenSurfaces\<close>\<close>

record BoundsAnalysis =
  kRequiresLayerCrop :: bool
  kDstBoundsNotCovered :: bool
  kHasLayerFillingEffect :: bool

definition SkRect_intersect :: "SkRect \<Rightarrow> SkRect \<Rightarrow> SkRect option" where
  "SkRect_intersect a b =
     (let l = max (fLeft a) (fLeft b); t = max (fTop a) (fTop b);
          r = min (fRight a) (fRight b); bt = min (fBottom a) (fBottom b)
      in if l < r \<and> t < bt then Some \<lparr>fLeft = l, fTop = t, fRight = r, fBottom = bt\<rparr>
         else None)"

definition image_dimensions :: "'p SkSpecialImage \<Rightarrow> SkIRect" where
  "image_dimensions img = MakeXYWH 0 0 (image_width img) (image_height img)"

text \<open>
  \<open>analyzeBounds\<close> reads the image, so it takes the image that its callers have checked
  to be present. Of the five flags, the two that only shader construction reads
  (shader-based tiling, decal in layer space) are left out.
\<close>

definition analyzeBounds ::
  "'p Context \<Rightarrow> 'p FilterResult \<Rightarrow> 'p SkSpecialImage \<Rightarrow> SkMatrix \<Rightarrow> SkIRect \<Rightarrow> BoundsAnalysis"
where
  "analyzeBounds ctx this img xtraTransform dstBounds =
     (let fillsLayerBounds =
            (fTileMode this \<noteq> kDecal \<or>
             (case fColorFilter this of None \<Rightarrow> False | Some cf \<Rightarrow> affectsTransparentBlack cf));
          layerVisible =
            (\<not> QuadContainsRect ctx xtraTransform (SkRect_Make (fLayerBounds this))
                  (SkRect_Make dstBounds) kRoundEpsilon);
          requireLayerCrop =
            (layerVisible \<and>
             (fillsLayerBounds \<or>
              \<not> contains (fLayerBounds this) (mapRect (fTransform this) (image_dimensions img))));
          pixelCenterBounds =
            (if requireLayerCrop then
               (case SkRect_intersect (SkRect_Make dstBounds)
                       (SkRect_Make (map_SkIRect (fLayerBounds this) xtraTransform)) of
                  Some r \<Rightarrow> r
                | None \<Rightarrow> SkRect_Make dstBounds)
             else SkRect_Make dstBounds);
          netTransform = postConcat (fTransform this) xtraTransform;
          notCovered =
            (\<not> QuadContainsRect ctx netTransform (SkRect_Make (image_dimensions img))
                  pixelCenterBounds kRoundEpsilon)
      in \<lparr>kRequiresLayerCrop = requireLayerCrop,
          kDstBoundsNotCovered = notCovered,
          kHasLayerFillingEffect = (notCovered \<and> fillsLayerBounds)\<rparr>)"

definition updateTileMode :: "'p Context \<Rightarrow> SkTileMode \<Rightarrow> 'p FilterResult \<Rightarrow> 'p FilterResult" where
  "updateTileMode ctx tileMode this =
     (if fImage this \<noteq> None then
        this\<lparr>fTileMode := tileMode,
             fLayerBounds := (if tileMode \<noteq> kDecal then desiredOutput ctx else fLayerBounds this)\<rparr>
      else this)"

definition extract_subset ::
  "'p SkSpecialImage \<Rightarrow> SkIPoint \<Rightarrow> SkIRect \<Rightarrow> bool \<Rightarrow> 'p SkSpecialImage option \<times> SkIPoint"
where
  "extract_subset img origin dstBounds clampSrcIfDisjoint =
     (let imageBounds =
            relevantSubset (MakeXYWH (fX origin) (fY origin) (image_width img) (image_height img))
              dstBounds (if clampSrcIfDisjoint then kClamp else kDecal)
      in if isEmpty imageBounds then (None, origin0)
         else (Some (makeSubset img
                  (MakeLTRB (fLeft imageBounds - fX origin) (fTop imageBounds - fY origin)
                            (fRight imageBounds - fX origin) (fBottom imageBounds - fY origin))),
               topLeft imageBounds))"

text \<open>
  \<open>AutoSurface\<close>: the constructor counts a new surface whether or not the device can be
  made; \<open>surface_ok\<close> is its \<open>operator bool\<close>, and \<open>snap\<close> takes the pixels that were drawn.
\<close>

definition surface_ok :: "'p Context \<Rightarrow> SkIRect \<Rightarrow> bool" where
  "surface_ok ctx dstBounds \<longleftrightarrow>
     \<not> isEmpty dstBounds \<and> makeDevice ctx (rect_width dstBounds) (rect_height dstBounds)"

definition snap :: "'p Context \<Rightarrow> SkIRect \<Rightarrow> 'p \<Rightarrow> 'p SkSpecialImage option \<times> SkIPoint" where
  "snap ctx fDstBounds p =
     (if surface_ok ctx fDstBounds then
        (Some \<lparr>pixels = p, subset = MakeXYWH 0 0 (rect_width fDstBounds) (rect_height fDstBounds)\<rparr>,
         topLeft fDstBounds)
      else (None, origin0))"

definition resolve ::
  "'p Context \<Rightarrow> 'p FilterResult \<Rightarrow> SkIRect \<Rightarrow> bool \<Rightarrow> Stats
     \<Rightarrow> ('p SkSpecialImage option \<times> SkIPoint) \<times> Stats"
where
  "resolve ctx this dstBounds0 preserveTransparency stats =
     (case fImage this of
        None \<Rightarrow> ((None, origin0), stats)
      | Some img \<Rightarrow>
          if \<not> preserveTransparency \<and> intersect dstBounds0 (fLayerBounds this) = None
          then ((None, origin0), stats)
          else
            let dstBounds =
                  (if preserveTransparency then dstBounds0
                   else (case intersect dstBounds0 (fLayerBounds this) of
                           Some r \<Rightarrow> r | None \<Rightarrow> dstBounds0));
                subsetCompatible =
                  (fColorFilter this = None \<and> fTileMode this = kDecal \<and> \<not> preserveTransparency)
            in case (if subsetCompatible then is_nearly_integer_translation (fTransform this)
                     else None) of
                 Some origin \<Rightarrow> (extract_subset img origin dstBounds False, stats)
               | None \<Rightarrow> (snap ctx dstBounds (drawn ctx this dstBounds), Suc stats))"

definition compatible_sampling ::
  "SkSamplingOptions \<Rightarrow> bool \<Rightarrow> SkSamplingOptions \<Rightarrow> bool \<Rightarrow> SkSamplingOptions option"
where
  \<comment> \<open>\<open>Some\<close> carries \<open>*nextSampling\<close> after a \<open>true\<close> return\<close>
  "compatible_sampling currentSampling currentXformWontAffectNearest nextSampling
       nextXformWontAffectNearest =
     (if isAniso currentSampling \<and> isAniso nextSampling then
        Some (Aniso (max (maxAniso currentSampling) (maxAniso nextSampling)))
      else if isAniso currentSampling \<and> filter_mode nextSampling = kLinear then
        Some currentSampling
      else if isAniso nextSampling \<and> filter_mode currentSampling = kLinear then
        Some nextSampling
      else if useCubic currentSampling \<and>
              (filter_mode nextSampling = kLinear \<or>
               (useCubic nextSampling \<and> cubicB currentSampling = cubicB nextSampling \<and>
                cubicC currentSampling = cubicC nextSampling)) then
        Some currentSampling
      else if useCubic nextSampling \<and> filter_mode currentSampling = kLinear then
        Some nextSampling
      else if filter_mode currentSampling = kLinear \<and> filter_mode nextSampling = kLinear then
        Some nextSampling
      else if filter_mode nextSampling = kNearest \<and> currentXformWontAffectNearest then
        Some nextSampling
      else if filter_mode currentSampling = kNearest \<and> nextXformWontAffectNearest then
        Some currentSampling
      else None)"

definition applyTransform ::
  "'p Context \<Rightarrow> 'p FilterResult \<Rightarrow> SkMatrix \<Rightarrow> SkSamplingOptions \<Rightarrow> Stats
     \<Rightarrow> 'p FilterResult \<times> Stats"
where
  "applyTransform ctx this transform sampling stats =
     (case fImage this of
        None \<Rightarrow> (FilterResult_empty, stats)
      | Some img \<Rightarrow>
          if isEmpty (desiredOutput ctx) then (FilterResult_empty, stats)
          else
            let currentXformIsInteger = (is_nearly_integer_translation (fTransform this) \<noteq> None);
                nextXformIsInteger = (is_nearly_integer_translation transform \<noteq> None);
                nextSampling0 = (if nextXformIsInteger then kDefaultSampling else sampling);
                isCropped =
                  (\<not> nextXformIsInteger \<and>
                   kRequiresLayerCrop (analyzeBounds ctx this img transform (desiredOutput ctx)));
                merged =
                  (if isCropped then None
                   else compatible_sampling (fSamplingOptions this) currentXformIsInteger
                          nextSampling0 nextXformIsInteger);
                (transformed, nextSampling, stats1) =
                  (case merged of
                     Some s \<Rightarrow> (this, s, stats)
                   | None \<Rightarrow>
                       (case inverseMapRect transform (desiredOutput ctx) of
                          Some tightBounds \<Rightarrow>
                            (let (r, st) = resolve ctx this tightBounds False stats
                             in (FilterResult_of r, nextSampling0, st))
                        | None \<Rightarrow> (FilterResult_empty, nextSampling0, stats)))
            in if fImage transformed = None then (FilterResult_empty, stats1)
               else
                 (case intersect (mapRect transform (fLayerBounds transformed))
                         (desiredOutput ctx) of
                    None \<Rightarrow> (FilterResult_empty, stats1)
                  | Some bounds \<Rightarrow>
                      (transformed\<lparr>fSamplingOptions := nextSampling,
                                    fTransform := postConcat (fTransform transformed) transform,
                                    fLayerBounds := bounds\<rparr>,
                       stats1)))"

text \<open>
  \<open>applyCrop\<close> in three parts. \<open>fit_crop\<close> is the block that sets
  \<open>preserveTransparencyInCrop\<close> and may change \<open>tileMode\<close> and \<open>fittedCrop\<close>;
  \<open>apply_fitted_crop\<close> is the final choice between extracting a subset, moving the layer
  bounds and resolving; \<open>applyCrop\<close> is the function, from its early returns on.
\<close>

definition fit_crop ::
  "'p Context \<Rightarrow> 'p FilterResult \<Rightarrow> SkTileMode \<Rightarrow> SkIRect \<Rightarrow> SkIRect
     \<Rightarrow> SkTileMode \<times> SkIRect \<times> bool"
where
  \<comment> \<open>the new \<open>tileMode\<close>, \<open>fittedCrop\<close> and \<open>preserveTransparencyInCrop\<close>\<close>
  "fit_crop ctx this tileMode fittedCrop cropContent =
     (if tileMode = kDecal then (tileMode, cropContent, False)
      else if contains fittedCrop (desiredOutput ctx) then (kDecal, desiredOutput ctx, False)
      else if \<not> contains cropContent fittedCrop then
        (if fTileMode this = kDecal \<and> tileMode = kClamp then
           (tileMode,
            (case intersect fittedCrop (outset cropContent 1 1) of
               Some r \<Rightarrow> r | None \<Rightarrow> fittedCrop),
            True)
         else (tileMode, fittedCrop, True))
      else (tileMode, fittedCrop, False))"

definition apply_fitted_crop ::
  "'p Context \<Rightarrow> 'p FilterResult \<Rightarrow> 'p SkSpecialImage \<Rightarrow> SkTileMode \<Rightarrow> SkIRect \<Rightarrow> bool
     \<Rightarrow> Stats \<Rightarrow> 'p FilterResult \<times> Stats"
where
  "apply_fitted_crop ctx this img tileMode fittedCrop preserveTransparencyInCrop stats =
     (let doubleClamp = (fTileMode this = kClamp \<and> tileMode = kClamp)
      in case (if preserveTransparencyInCrop then None
               else case is_nearly_integer_translation (fTransform this) of
                      None \<Rightarrow> None
                    | Some origin \<Rightarrow>
                        if doubleClamp \<or>
                           \<not> kHasLayerFillingEffect
                               (analyzeBounds ctx this img SkMatrix_I fittedCrop)
                        then Some origin else None) of
           Some origin \<Rightarrow>
             (updateTileMode ctx tileMode
                ((FilterResult_of (extract_subset img origin fittedCrop doubleClamp))
                   \<lparr>fColorFilter := fColorFilter this\<rparr>),
              stats)
         | None \<Rightarrow>
             if tileMode = kDecal then (this\<lparr>fLayerBounds := fittedCrop\<rparr>, stats)
             else
               (case resolve ctx this fittedCrop True stats of
                  (r, stats1) \<Rightarrow> (updateTileMode ctx tileMode (FilterResult_of r), stats1)))"

definition applyCrop ::
  "'p Context \<Rightarrow> 'p FilterResult \<Rightarrow> SkIRect \<Rightarrow> SkTileMode \<Rightarrow> Stats \<Rightarrow> 'p FilterResult \<times> Stats"
where
  "applyCrop ctx this crop tileMode stats =
     (if isEmpty crop \<or> isEmpty (desiredOutput ctx) then (FilterResult_empty, stats)
      else
        (case fImage this of
           None \<Rightarrow> (FilterResult_empty, stats)
         | Some img \<Rightarrow>
             (case intersect crop (fLayerBounds this) of
                None \<Rightarrow> (FilterResult_empty, stats)
              | Some cropContent0 \<Rightarrow>
                  (case intersect cropContent0
                          (relevantSubset crop (desiredOutput ctx) tileMode) of
                     None \<Rightarrow> (FilterResult_empty, stats)
                   | Some cropContent \<Rightarrow>
                       (case periodic_axis_transform tileMode
                               (relevantSubset crop (desiredOutput ctx) tileMode)
                               (desiredOutput ctx) of
                          Some periodicTransform \<Rightarrow>
                            applyTransform ctx this periodicTransform kDefaultSampling stats
                        | None \<Rightarrow>
                            (case fit_crop ctx this tileMode
                                    (relevantSubset crop (desiredOutput ctx) tileMode)
                                    cropContent of
                               (tileMode1, fittedCrop, preserveTransparencyInCrop) \<Rightarrow>
                                 apply_fitted_crop ctx this img tileMode1 fittedCrop
                                   preserveTransparencyInCrop stats))))))"

definition applyColorFilter ::
  "'p Context \<Rightarrow> 'p FilterResult \<Rightarrow> SkColorFilter \<Rightarrow> Stats \<Rightarrow> 'p FilterResult \<times> Stats"
where
  "applyColorFilter ctx this colorFilter stats =
     (if isEmpty (desiredOutput ctx) then (FilterResult_empty, stats)
      else
        let clipped =
              (case fImage this of
                 None \<Rightarrow> None
               | Some img \<Rightarrow>
                   (case intersect (fLayerBounds this) (desiredOutput ctx) of
                      None \<Rightarrow> None
                    | Some newLayerBounds \<Rightarrow> Some (img, newLayerBounds)))
        in if affectsTransparentBlack colorFilter then
             (case clipped of
                None \<Rightarrow>
                  (let dstBounds =
                         MakeXYWH (fLeft (desiredOutput ctx)) (fTop (desiredOutput ctx)) 1 1
                   in (updateTileMode ctx kClamp
                         (FilterResult_of
                            (snap ctx dstBounds (painted ctx (colorFilter kTransparent)))),
                       Suc stats))
              | Some (img, newLayerBounds0) \<Rightarrow>
                  if kRequiresLayerCrop
                       (analyzeBounds ctx this img SkMatrix_I (desiredOutput ctx))
                  then
                    (let outsetBounds = outset newLayerBounds0 1 1;
                         newLayerBounds =
                           (case intersect outsetBounds (desiredOutput ctx) of
                              Some r \<Rightarrow> r | None \<Rightarrow> outsetBounds);
                         (r, st) = resolve ctx this newLayerBounds True stats
                     in (updateTileMode ctx kClamp
                           ((FilterResult_of r)\<lparr>fColorFilter := Some colorFilter\<rparr>),
                         st))
                  else
                    (this\<lparr>fLayerBounds := desiredOutput ctx,
                          fColorFilter := Compose (Some colorFilter) (fColorFilter this)\<rparr>,
                     stats))
           else
             (case clipped of
                None \<Rightarrow> (FilterResult_empty, stats)
              | Some (img, newLayerBounds) \<Rightarrow>
                  (this\<lparr>fLayerBounds := newLayerBounds,
                        fColorFilter := Compose (Some colorFilter) (fColorFilter this)\<rparr>,
                   stats)))"

section \<open>Rescaling\<close>

definition SkRect_width :: "SkRect \<Rightarrow> scalar" where
  "SkRect_width r = fRight r - fLeft r"

definition SkRect_height :: "SkRect \<Rightarrow> scalar" where
  "SkRect_height r = fBottom r - fTop r"

definition MakeWH :: "scalar \<Rightarrow> scalar \<Rightarrow> SkRect" where
  "MakeWH w h = \<lparr>fLeft = 0, fTop = 0, fRight = w, fBottom = h\<rparr>"

text \<open>
  Modelled from the spec: \<open>SkMatrix::RectToRect\<close> is not among the sources. It is the
  scale-translate matrix that maps the first rectangle onto the second, and the identity
  when the first rectangle is empty.
\<close>

definition RectToRect :: "SkRect \<Rightarrow> SkRect \<Rightarrow> SkMatrix" where
  "RectToRect src dst =
     (if SkRect_isEmpty src then SkMatrix_I
      else
        let sx = SkRect_width dst / SkRect_width src;
            sy = SkRect_height dst / SkRect_height src
        in setScaleTranslate sx sy (fLeft dst - fLeft src * sx) (fTop dst - fTop src * sy))"

text \<open>
  The loop of \<open>rescale\<close>. Its state is the image of the previous step (none before the
  first), that image's origin, the working tile mode, the steps left on each axis, the
  fractional and the pixel bounds of the previous step, and the surface count.
  \<open>rescale_step\<close> is one run of the loop body; \<open>None\<close> is its early return on a failed
  surface, with the surface count that the failed attempt leaves.
\<close>

record 'p rescale_state =
  loopImage :: "'p SkSpecialImage option"
  loopOrigin :: SkIPoint
  loopTileMode :: SkTileMode
  xSteps :: int
  ySteps :: int
  stepBoundsF :: SkRect
  stepPixelBounds :: SkIRect
  loopStats :: Stats

definition step_bounds ::
  "SkIRect \<Rightarrow> scalar \<times> scalar \<Rightarrow> 'p rescale_state \<Rightarrow> SkRect \<times> SkIRect"
where
  \<comment> \<open>\<open>dstBoundsF\<close> and the padded \<open>dstPixelBounds\<close> of one run of the loop body\<close>
  "step_bounds srcRect scale st =
     (let sx = (if 0 < xSteps st then
                  (if 1 < xSteps st then 1 / 2
                   else of_int (rect_width srcRect) * fst scale / SkRect_width (stepBoundsF st))
                else 1);
          sy = (if 0 < ySteps st then
                  (if 1 < ySteps st then 1 / 2
                   else of_int (rect_height srcRect) * snd scale / SkRect_height (stepBoundsF st))
                else 1);
          dstBoundsF = MakeWH (SkRect_width (stepBoundsF st) * sx)
                         (SkRect_height (stepBoundsF st) * sy);
          dstPixelBounds0 = RoundOut dstBoundsF
      in if loopTileMode st = kClamp \<or> loopTileMode st = kDecal then
           let srcFracX = of_int (fRight (stepPixelBounds st)) - fRight (stepBoundsF st) - 1 / 2;
               dstFracX = of_int (fRight dstPixelBounds0) - fRight dstBoundsF - 1 / 2;
               px = max 1 (sk_float_ceil2int (sx * srcFracX - dstFracX));
               srcFracY = of_int (fBottom (stepPixelBounds st)) - fBottom (stepBoundsF st) - 1 / 2;
               dstFracY = of_int (fBottom dstPixelBounds0) - fBottom dstBoundsF - 1 / 2;
               py = max 1 (sk_float_ceil2int (sy * srcFracY - dstFracY))
           in (dstBoundsF, outset dstPixelBounds0 px py)
         else (dstBoundsF, dstPixelBounds0))"

definition rescale_step ::
  "'p Context \<Rightarrow> 'p FilterResult \<Rightarrow> SkIRect \<Rightarrow> scalar \<times> scalar \<Rightarrow> 'p rescale_state
     \<Rightarrow> 'p rescale_state option"
where
  "rescale_step ctx this srcRect scale st =
     (case step_bounds srcRect scale st of
        (dstBoundsF, dstPixelBounds) \<Rightarrow>
          if surface_ok ctx dstPixelBounds then
            Some
              \<lparr>loopImage =
                 Some \<lparr>pixels =
                         (case loopImage st of
                            None \<Rightarrow>
                              drawnScaled ctx this (RectToRect (stepBoundsF st) dstBoundsF)
                                dstPixelBounds
                          | Some previous \<Rightarrow>
                              downsampled ctx previous (loopTileMode st) (loopOrigin st)
                                (RectToRect (stepBoundsF st) dstBoundsF) dstPixelBounds),
                       subset = MakeXYWH 0 0 (rect_width dstPixelBounds)
                                  (rect_height dstPixelBounds)\<rparr>,
               loopOrigin = topLeft dstPixelBounds,
               loopTileMode = (if loopTileMode st = kDecal then kClamp else loopTileMode st),
               xSteps = (if 0 < xSteps st then xSteps st - 1 else xSteps st),
               ySteps = (if 0 < ySteps st then ySteps st - 1 else ySteps st),
               stepBoundsF = dstBoundsF,
               stepPixelBounds = dstPixelBounds,
               loopStats = Suc (loopStats st)\<rparr>
          else None)"

definition steps_left :: "'p rescale_state \<Rightarrow> nat" where
  \<comment> \<open>the runs of the loop body still to come\<close>
  "steps_left st = (if loopImage st = None then 1 else 0) + nat (xSteps st) + nat (ySteps st)"

definition loop_done :: "'p rescale_state \<Rightarrow> bool" where
  \<comment> \<open>the negation of the loop condition \<open>!image || xSteps > 0 || ySteps > 0\<close>\<close>
  "loop_done st \<longleftrightarrow> \<not> (loopImage st = None \<or> 0 < xSteps st \<or> 0 < ySteps st)"

lemma rescale_step_decreases:
  assumes "\<not> loop_done st" and "rescale_step ctx this srcRect scale st = Some st'"
  shows "steps_left st' < steps_left st"
proof -
  obtain f b where fb: "step_bounds srcRect scale st = (f, b)"
    by (cases "step_bounds srcRect scale st")
  from assms(2) have
    "loopImage st' \<noteq> None"
    "xSteps st' = (if 0 < xSteps st then xSteps st - 1 else xSteps st)"
    "ySteps st' = (if 0 < ySteps st then ySteps st - 1 else ySteps st)"
    unfolding rescale_step_def fb by (auto split: if_split_asm)
  with assms(1) show ?thesis
    unfolding steps_left_def loop_done_def by (auto split: if_split_asm)
qed

function rescale_loop ::
  "'p Context \<Rightarrow> 'p FilterResult \<Rightarrow> SkIRect \<Rightarrow> scalar \<times> scalar \<Rightarrow> 'p rescale_state
     \<Rightarrow> 'p rescale_state option \<times> Stats"
where
  "rescale_loop ctx this srcRect scale st =
     (if loop_done st then (Some st, loopStats st)
      else
        case rescale_step ctx this srcRect scale st of
          None \<Rightarrow> (None, Suc (loopStats st))
        | Some st' \<Rightarrow> rescale_loop ctx this srcRect scale st')"
  by pat_completeness auto
termination
  by (relation "measure (\<lambda>(ctx, this, srcRect, scale, st). steps_left st)")
     (auto dest: rescale_step_decreases)

declare rescale_loop.simps [simp del]

definition rescale ::
  "'p Context \<Rightarrow> 'p FilterResult \<Rightarrow> scalar \<times> scalar \<Rightarrow> bool \<Rightarrow> Stats \<Rightarrow> 'p FilterResult \<times> Stats"
where
  "rescale ctx this scale enforceDecal stats =
     (case fImage this of
        None \<Rightarrow> (FilterResult_empty, stats)
      | Some img \<Rightarrow>
     (case intersect (fLayerBounds this) (desiredOutput ctx) of
        None \<Rightarrow> (FilterResult_empty, stats)
      | Some visibleLayerBounds \<Rightarrow>
     if fst scale \<le> 0 \<or> snd scale \<le> 0 then (FilterResult_empty, stats)
     else
       let xSteps = downscale_step_count (fst scale);
           ySteps = downscale_step_count (snd scale);
           pixelAligned = is_nearly_integer_translation (fTransform this);
           origin = (case pixelAligned of Some p \<Rightarrow> p | None \<Rightarrow> origin0);
           analysis = analyzeBounds ctx this img SkMatrix_I (desiredOutput ctx);
           canDeferTiling =
             (pixelAligned \<noteq> None \<and> \<not> kRequiresLayerCrop analysis \<and>
              \<not> (enforceDecal \<and> kHasLayerFillingEffect analysis));
           hasEffectsToApply =
             (\<not> canDeferTiling \<or> fColorFilter this \<noteq> None \<or> \<not> sameColorFormat ctx img)
       in if xSteps = 0 \<and> ySteps = 0 \<and> \<not> hasEffectsToApply then
            (if kHasLayerFillingEffect analysis
             then (this\<lparr>fLayerBounds := visibleLayerBounds\<rparr>, stats)
             else (FilterResult_of (extract_subset img origin visibleLayerBounds False), stats))
          else
            let tiled = (canDeferTiling \<and> kHasLayerFillingEffect analysis);
                tileMode = (if tiled then fTileMode this else kDecal);
                srcRect =
                  relevantSubset
                    (if tiled
                     then MakeXYWH (fX origin) (fY origin) (image_width img) (image_height img)
                     else visibleLayerBounds)
                    (desiredOutput ctx) tileMode
            in if isEmpty srcRect then (FilterResult_empty, stats)
               else
                 (case rescale_loop ctx this srcRect scale
                         \<lparr>loopImage = None, loopOrigin = origin, loopTileMode = tileMode,
                          xSteps = xSteps, ySteps = ySteps, stepBoundsF = SkRect_Make srcRect,
                          stepPixelBounds = outset srcRect 1 1, loopStats = stats\<rparr> of
                    (None, stats1) \<Rightarrow> (FilterResult_empty, stats1)
                  | (Some st, stats1) \<Rightarrow>
                      ((FilterResult_of (loopImage st, loopOrigin st))
                         \<lparr>fTransform :=
                            postConcat (fTransform (FilterResult_of (loopImage st, loopOrigin st)))
                              (RectToRect (stepBoundsF st) (SkRect_Make srcRect)),
                          fLayerBounds := visibleLayerBounds,
                          fTileMode := (if enforceDecal then kDecal else loopTileMode st)\<rparr>,
                       stats1))))"

definition invert_color :: SkColorFilter where
  \<comment> \<open>an example of a filter that affects transparent black\<close>
  "invert_color c = \<lparr>fR = 1 - fR c, fG = 1 - fG c, fB = 1 - fB c, fA = 1 - fA c\<rparr>"

definition swap_red_blue :: SkColorFilter where
  \<comment> \<open>an example of a filter that does not\<close>
  "swap_red_blue c = \<lparr>fR = fB c, fG = fG c, fB = fR c, fA = fA c\<rparr>"

section \<open>Pixels of a rectangle and example values\<close>

definition covers :: "SkIRect \<Rightarrow> int \<Rightarrow> int \<Rightarrow> bool" where
  \<comment> \<open>the pixel \<open>(x, y)\<close> lies in the half-open rectangle\<close>
  "covers r x y \<longleftrightarrow> fLeft r \<le> x \<and> x < fRight r \<and> fTop r \<le> y \<and> y < fBottom r"

definition pixel_gap :: "int \<Rightarrow> int \<Rightarrow> int \<Rightarrow> int" where
  \<comment> \<open>the distance in pixels from the pixel \<open>x\<close> to the nearest pixel of the half-open
      interval from \<open>lo\<close> to \<open>hi\<close>\<close>
  "pixel_gap lo hi x = (if x < lo then lo - x else if hi \<le> x then x - (hi - 1) else 0)"

definition mapped_edge :: "scalar \<Rightarrow> scalar \<Rightarrow> int \<Rightarrow> rat" where
  \<comment> \<open>the double that \<open>Mapping::map\<close> computes for the edge \<open>x\<close> under scale \<open>s\<close> and
      translation \<open>t\<close>\<close>
  "mapped_edge s t x = f64 (f64 (s * of_int x) + t)"

definition rect_within :: "SkIRect \<Rightarrow> SkIRect \<Rightarrow> bool" where
  \<comment> \<open>every pixel of the first rectangle is a pixel of the second\<close>
  "rect_within r outer \<longleftrightarrow>
     isEmpty r \<or>
     (fLeft outer \<le> fLeft r \<and> fTop outer \<le> fTop r \<and>
      fRight r \<le> fRight outer \<and> fBottom r \<le> fBottom outer)"

definition image_10x10 :: "'p \<Rightarrow> 'p SkSpecialImage" where
  "image_10x10 p = \<lparr>pixels = p, subset = MakeXYWH 0 0 10 10\<rparr>"

definition result_10x10 :: "'p \<Rightarrow> 'p FilterResult" where
  \<comment> \<open>a 10 by 10 image at the origin\<close>
  "result_10x10 p = FilterResult_of (Some (image_10x10 p), origin0)"

definition clamped_10x10 :: "'p \<Rightarrow> 'p FilterResult" where
  \<comment> \<open>the 10 by 10 image, clamp-tiled over \<open>[0,0,30,30]\<close>\<close>
  "clamped_10x10 p = (result_10x10 p)\<lparr>fTileMode := kClamp, fLayerBounds := MakeLTRB 0 0 30 30\<rparr>"

definition example_QuadContainsRect :: "SkMatrix \<Rightarrow> SkRect \<Rightarrow> SkRect \<Rightarrow> scalar \<Rightarrow> bool" where
  \<comment> \<open>containment of \<open>b\<close> in the image of \<open>a\<close>, for the matrices of the examples, which
      keep rectangles axis-aligned\<close>
  "example_QuadContainsRect m a b tol =
     (let q = SkMatrix_mapRect m a
      in \<not> SkRect_isEmpty a \<and>
         fLeft q - tol \<le> fLeft b \<and> fTop q - tol \<le> fTop b \<and>
         fRight b \<le> fRight q + tol \<and> fBottom b \<le> fBottom q + tol)"

definition example_context :: "SkIRect \<Rightarrow> nat Context" where
  \<comment> \<open>a context whose backend always allocates; drawn pixels are numbered by the kind of draw\<close>
  "example_context output =
     \<lparr>desiredOutput = output,
      makeDevice = (\<lambda>w h. True),
      drawn = (\<lambda>this dstBounds. 1),
      painted = (\<lambda>color. 2),
      drawnScaled = (\<lambda>this m dstBounds. 3),
      downsampled = (\<lambda>img tileMode origin m dstBounds. 4),
      sameColorFormat = (\<lambda>img. True),
      QuadContainsRect = example_QuadContainsRect\<rparr>"

section \<open>Auxiliary facts\<close>

lemma bit_length_0: "bit_length 0 = 0"
  by (subst bit_length.simps) simp
lemma bit_length_pos: "0 < n \<Longrightarrow> bit_length n = 1 + bit_length (n div 2)"
  by (subst bit_length.simps) simp
lemma bit_length_bounds:
  "0 < n \<Longrightarrow> \<exists>k::nat. bit_length n = int k + 1 \<and> 2 ^ k \<le> n \<and> n < 2 ^ (k + 1)"
proof (induction n rule: bit_length.induct)
  case (1 n)
  show ?case
  proof (cases "n = 1")
    case True
    then have "bit_length n = int 0 + 1 \<and> 2 ^ 0 \<le> n \<and> n < 2 ^ (0 + 1)"
      by (simp add: bit_length_pos bit_length_0)
    then show ?thesis by blast
  next
    case False
    with "1.prems" have pos: "0 < n div 2" by simp
    from "1.prems" have "\<not> n \<le> 0" by simp
    from "1.IH"[OF this pos] obtain k :: nat where
      k: "bit_length (n div 2) = int k + 1" "2 ^ k \<le> n div 2" "n div 2 < 2 ^ (k + 1)"
      by blast
    have a: "2 * (n div 2) \<le> n" by simp
    have b: "n < 2 * (n div 2 + 1)" by presburger
    have "bit_length n = int (Suc k) + 1" using "1.prems" k(1) by (simp add: bit_length_pos)
    moreover have "2 ^ Suc k \<le> n" using k(2) a by simp
    moreover have "n < 2 ^ (Suc k + 1)" using k(3) b by simp
    ultimately show ?thesis by blast
  qed
qed

lemma pow2_powi: "pow2 k = 2 powi k"
  by (simp add: pow2_def power_int_def inverse_eq_divide power_one_over)

lemma binary_exponent_lower:
  assumes "0 < x"
  shows "pow2 (binary_exponent x) \<le> x"
proof -
  obtain a b where q: "quotient_of x = (a, b)" by (cases "quotient_of x")
  then have b: "0 < b" by (rule quotient_of_denom_pos)
  from q have x: "x = of_int a / of_int b" by (rule quotient_of_div)
  with assms b have a: "0 < a" by (simp add: zero_less_divide_iff)
  from bit_length_bounds[OF a] obtain ka :: nat where
    ka: "bit_length a = int ka + 1" "2 ^ ka \<le> a" by blast
  from bit_length_bounds[OF b] obtain kb :: nat where
    kb: "bit_length b = int kb + 1" "b < 2 ^ (kb + 1)" by blast
  have e0: "bit_length a - bit_length b = int ka - int kb" using ka kb by simp
  have "(2::rat) ^ ka \<le> of_int a" using ka(2) by (metis of_int_le_iff of_int_numeral of_int_power)
  moreover have "(of_int b :: rat) < 2 ^ (kb + 1)" using kb(2) by (metis of_int_less_iff of_int_numeral of_int_power)
  ultimately have "(2::rat) ^ ka / 2 ^ (kb + 1) \<le> of_int a / of_int b"
    using a b by (intro frac_le) simp_all
  moreover have "(2::rat) ^ ka / 2 ^ (kb + 1) = 2 powi (int ka - int kb - 1)"
    by (simp add: power_int_diff power_int_add)
  ultimately have low: "pow2 (int ka - int kb - 1) \<le> x" by (simp add: pow2_powi x)
  show ?thesis
    using low by (simp add: binary_exponent_def q e0 Let_def)
qed

lemma round_half_even_ge: "\<lfloor>y\<rfloor> \<le> round_half_even y"
  by (simp add: round_half_even_def Let_def)

lemma f32_pos:
  assumes "0 < x"
  shows "0 < f32 x"
proof -
  let ?e = "binary_exponent x"
  let ?ulp = "pow2 (?e - 23)"
  have ulp: "0 < ?ulp" by (simp add: pow2_powi)
  have "pow2 ?e / ?ulp = 2 ^ 23" by (simp add: pow2_powi power_int_diff)
  moreover have "pow2 ?e / ?ulp \<le> x / ?ulp"
    using binary_exponent_lower[OF assms] ulp by (simp add: divide_right_mono)
  ultimately have "1 \<le> x / ?ulp" by simp
  then have "1 \<le> \<lfloor>x / ?ulp\<rfloor>" by simp
  then have "0 < round_half_even (x / ?ulp)" using round_half_even_ge[of "x / ?ulp"] by linarith
  then show ?thesis using assms ulp by (simp add: f32_def Let_def)
qed
lemma SkNextLog2_bounds:
  assumes "1 \<le> n" "n \<le> 2 ^ 31"
  shows "0 \<le> SkNextLog2 n \<and> n \<le> 2 ^ nat (SkNextLog2 n) \<and>
         (0 < SkNextLog2 n \<longrightarrow> 2 ^ nat (SkNextLog2 n - 1) < n)"
proof (cases "n = 1")
  case True
  then show ?thesis by (simp add: SkNextLog2_def SkCLZ_def bit_length_0)
next
  case False
  with assms have pos: "0 < n - 1" by simp
  from bit_length_bounds[OF pos] obtain k :: nat where
    k: "bit_length (n - 1) = int k + 1" "2 ^ k \<le> n - 1" "n - 1 < 2 ^ (k + 1)" by blast
  have "(n - 1) mod 2 ^ 32 = n - 1" using assms pos by simp
  then have eq: "SkNextLog2 n = int k + 1" by (simp add: SkNextLog2_def SkCLZ_def k(1))
  have "nat (int k + 1) = Suc k" by simp
  then show ?thesis using k(2,3) eq by simp
qed

lemma sk_float_saturate2int_bounds:
  "1 \<le> c \<Longrightarrow> 1 \<le> sk_float_saturate2int (of_int c) \<and> sk_float_saturate2int (of_int c) \<le> 2 ^ 31"
  by (auto simp add: sk_float_saturate2int_def SK_MaxS32FitsInFloat_def
        SK_MinS32FitsInFloat_def Let_def)

lemma sk_float_ceil2int_bounds:
  assumes "0 < x"
  shows "1 \<le> sk_float_ceil2int x \<and> sk_float_ceil2int x \<le> 2 ^ 31"
proof -
  have "1 \<le> \<lceil>x\<rceil>" using assms by (simp add: le_ceiling_iff)
  then show ?thesis
    unfolding sk_float_ceil2int_def by (rule sk_float_saturate2int_bounds)
qed

lemma f32_0: "f32 0 = 0"
  by (simp add: f32_def)

lemma kRoundEpsilon_value: "kRoundEpsilon = 8589935 / 8589934592"
  unfolding kRoundEpsilon_def by code_simp

lemma isEmpty_MakeEmpty: "isEmpty MakeEmpty"
  by (simp add: isEmpty_def MakeEmpty_def MakeLTRB_def)

lemma intersect_SomeD:
  assumes "intersect a b = Some r"
  shows "fLeft r = max (fLeft a) (fLeft b)" "fTop r = max (fTop a) (fTop b)"
    "fRight r = min (fRight a) (fRight b)" "fBottom r = min (fBottom a) (fBottom b)"
    "fLeft r < fRight r" "fTop r < fBottom r"
proof -
  let ?t = "MakeLTRB (max (fLeft a) (fLeft b)) (max (fTop a) (fTop b))
                     (min (fRight a) (fRight b)) (min (fBottom a) (fBottom b))"
  from assms have r: "r = ?t" and ne: "\<not> isEmpty ?t"
    by (simp_all add: intersect_def Let_def split: if_splits)
  show "fLeft r = max (fLeft a) (fLeft b)" "fTop r = max (fTop a) (fTop b)"
    "fRight r = min (fRight a) (fRight b)" "fBottom r = min (fBottom a) (fBottom b)"
    by (simp_all add: r MakeLTRB_def)
  from ne show "fLeft r < fRight r" "fTop r < fBottom r"
    by (simp_all add: r isEmpty_def MakeLTRB_def not_le)
qed

lemma intersect_SomeI:
  assumes "max (fLeft a) (fLeft b) < min (fRight a) (fRight b)"
    and "max (fTop a) (fTop b) < min (fBottom a) (fBottom b)"
  shows "intersect a b = Some (MakeLTRB (max (fLeft a) (fLeft b)) (max (fTop a) (fTop b))
                     (min (fRight a) (fRight b)) (min (fBottom a) (fBottom b)))"
  using assms by (simp add: intersect_def Let_def isEmpty_def MakeLTRB_def not_le)

lemma intersect_Some_covers:
  assumes "intersect a b = Some r"
  shows "covers r x y \<longleftrightarrow> covers a x y \<and> covers b x y"
  unfolding covers_def intersect_SomeD(1-4)[OF assms]
  by (simp only: max.bounded_iff min_less_iff_conj) blast

lemma intersect_None_iff:
  "intersect a b = None \<longleftrightarrow> (\<forall>x y. \<not> (covers a x y \<and> covers b x y))"
proof
  assume n: "intersect a b = None"
  show "\<forall>x y. \<not> (covers a x y \<and> covers b x y)"
  proof (intro allI notI)
    fix x y assume c: "covers a x y \<and> covers b x y"
    then have "max (fLeft a) (fLeft b) \<le> x" "x < min (fRight a) (fRight b)"
      "max (fTop a) (fTop b) \<le> y" "y < min (fBottom a) (fBottom b)"
      by (simp_all add: covers_def)
    then have "max (fLeft a) (fLeft b) < min (fRight a) (fRight b)"
      "max (fTop a) (fTop b) < min (fBottom a) (fBottom b)"
      by (blast intro: le_less_trans)+
    from intersect_SomeI[OF this] n show False by simp
  qed
next
  assume h: "\<forall>x y. \<not> (covers a x y \<and> covers b x y)"
  show "intersect a b = None"
  proof (rule ccontr)
    assume "intersect a b \<noteq> None"
    then obtain r where r: "intersect a b = Some r" by blast
    from intersect_SomeD(5,6)[OF r] have "covers r (fLeft r) (fTop r)"
      by (simp add: covers_def)
    with intersect_Some_covers[OF r] h show False by blast
  qed
qed

lemma FilterResult_empty_fields:
  "fImage FilterResult_empty = None" "fColorFilter FilterResult_empty = None"
  "fLayerBounds FilterResult_empty = MakeEmpty" "fTileMode FilterResult_empty = kDecal"
  by (simp_all add: FilterResult_empty_def FilterResult_of_def mapRect_def map_SkIRect_def isEmpty_MakeEmpty)

lemma ClosestDisjointEdge_shape:
  assumes "\<not> isEmpty src" "\<not> isEmpty dst" "intersect src dst = None"
  shows "\<not> isEmpty (ClosestDisjointEdge src dst) \<and>
         (\<forall>x y. covers (ClosestDisjointEdge src dst) x y \<longrightarrow> covers src x y) \<and>
         (rect_width (ClosestDisjointEdge src dst) = 1 \<or>
          rect_height (ClosestDisjointEdge src dst) = 1)"
  using assms
  by (auto simp add: ClosestDisjointEdge_def intersect_def covers_def isEmpty_def MakeLTRB_def
      SkTPin_def rect_width_def rect_height_def Let_def split: if_splits)

lemma pixel_gap_nonneg: "lo < hi \<Longrightarrow> 0 \<le> pixel_gap lo hi x"
  by (simp add: pixel_gap_def)

lemma closest_before:
  assumes "sl < sr" "dl < dr" "sr \<le> dl"
  shows "(sr - 1 \<le> x \<and> x < sr) \<longleftrightarrow>
         (sl \<le> x \<and> x < sr \<and> (\<forall>x'. sl \<le> x' \<and> x' < sr \<longrightarrow> pixel_gap dl dr x \<le> pixel_gap dl dr x'))"
proof
  assume "sr - 1 \<le> x \<and> x < sr"
  then have x: "x = sr - 1" by simp
  have "pixel_gap dl dr x \<le> pixel_gap dl dr x'" if "sl \<le> x' \<and> x' < sr" for x'
    using that assms by (simp add: pixel_gap_def x)
  then show "sl \<le> x \<and> x < sr \<and> (\<forall>x'. sl \<le> x' \<and> x' < sr \<longrightarrow> pixel_gap dl dr x \<le> pixel_gap dl dr x')"
    using assms x by simp
next
  assume h: "sl \<le> x \<and> x < sr \<and> (\<forall>x'. sl \<le> x' \<and> x' < sr \<longrightarrow> pixel_gap dl dr x \<le> pixel_gap dl dr x')"
  then have "pixel_gap dl dr x \<le> pixel_gap dl dr (sr - 1)" using assms by simp
  with h assms show "sr - 1 \<le> x \<and> x < sr" by (simp add: pixel_gap_def)
qed

lemma closest_after:
  assumes "sl < sr" "dl < dr" "dr \<le> sl"
  shows "(sl \<le> x \<and> x < sl + 1) \<longleftrightarrow>
         (sl \<le> x \<and> x < sr \<and> (\<forall>x'. sl \<le> x' \<and> x' < sr \<longrightarrow> pixel_gap dl dr x \<le> pixel_gap dl dr x'))"
proof
  assume "sl \<le> x \<and> x < sl + 1"
  then have x: "x = sl" by simp
  have "pixel_gap dl dr x \<le> pixel_gap dl dr x'" if "sl \<le> x' \<and> x' < sr" for x'
    using that assms by (simp add: pixel_gap_def x)
  then show "sl \<le> x \<and> x < sr \<and> (\<forall>x'. sl \<le> x' \<and> x' < sr \<longrightarrow> pixel_gap dl dr x \<le> pixel_gap dl dr x')"
    using assms x by simp
next
  assume h: "sl \<le> x \<and> x < sr \<and> (\<forall>x'. sl \<le> x' \<and> x' < sr \<longrightarrow> pixel_gap dl dr x \<le> pixel_gap dl dr x')"
  then have "pixel_gap dl dr x \<le> pixel_gap dl dr sl" using assms by simp
  with h assms show "sl \<le> x \<and> x < sl + 1" by (simp add: pixel_gap_def)
qed

lemma closest_overlap:
  assumes "sl < sr" "dl < dr" "dl < sr" "sl < dr"
  shows "(SkTPin sl dl dr \<le> x \<and> x < SkTPin sr dl dr) \<longleftrightarrow>
         (sl \<le> x \<and> x < sr \<and> (\<forall>x'. sl \<le> x' \<and> x' < sr \<longrightarrow> pixel_gap dl dr x \<le> pixel_gap dl dr x'))"
proof -
  have p: "SkTPin sl dl dr = max sl dl" "SkTPin sr dl dr = min sr dr"
    using assms by (simp_all add: SkTPin_def)
  show ?thesis
  proof
    assume "SkTPin sl dl dr \<le> x \<and> x < SkTPin sr dl dr"
    then have x: "sl \<le> x" "dl \<le> x" "x < sr" "x < dr" by (simp_all add: p)
    then have "pixel_gap dl dr x = 0" by (simp add: pixel_gap_def)
    then show "sl \<le> x \<and> x < sr \<and> (\<forall>x'. sl \<le> x' \<and> x' < sr \<longrightarrow> pixel_gap dl dr x \<le> pixel_gap dl dr x')"
      using x pixel_gap_nonneg[OF assms(2)] by simp
  next
    assume h: "sl \<le> x \<and> x < sr \<and> (\<forall>x'. sl \<le> x' \<and> x' < sr \<longrightarrow> pixel_gap dl dr x \<le> pixel_gap dl dr x')"
    have "sl \<le> max sl dl \<and> max sl dl < sr" using assms by simp
    with h have "pixel_gap dl dr x \<le> pixel_gap dl dr (max sl dl)" by blast
    moreover have "dl \<le> max sl dl" "max sl dl < dr" using assms by simp_all
    then have "\<not> max sl dl < dl" "\<not> dr \<le> max sl dl" by (simp_all only: not_less not_le)
    then have "pixel_gap dl dr (max sl dl) = 0" by (simp only: pixel_gap_def if_False)
    ultimately have "pixel_gap dl dr x \<le> 0" by simp
    then have "dl \<le> x \<and> x < dr" using assms(2) by (simp add: pixel_gap_def split: if_split_asm)
    with h show "SkTPin sl dl dr \<le> x \<and> x < SkTPin sr dl dr" by (simp add: p)
  qed
qed

lemma closest_axis_minimal:
  assumes "sl < sr" "dl < dr"
  shows "(fst (if sr \<le> dl then (sr - 1, sr)
            else if dr \<le> sl then (sl, sl + 1)
            else (SkTPin sl dl dr, SkTPin sr dl dr)) \<le> x \<and>
          x < snd (if sr \<le> dl then (sr - 1, sr)
            else if dr \<le> sl then (sl, sl + 1)
            else (SkTPin sl dl dr, SkTPin sr dl dr))) \<longleftrightarrow>
         (sl \<le> x \<and> x < sr \<and> (\<forall>x'. sl \<le> x' \<and> x' < sr \<longrightarrow> pixel_gap dl dr x \<le> pixel_gap dl dr x'))"
proof (cases "sr \<le> dl")
  case True
  then show ?thesis using closest_before[OF assms True] by simp
next
  case False
  show ?thesis
  proof (cases "dr \<le> sl")
    case True
    with False show ?thesis using closest_after[OF assms True] by simp
  next
    case f2: False
    from False f2 have "dl < sr" "sl < dr" by simp_all
    from closest_overlap[OF assms this] False f2 show ?thesis by simp
  qed
qed

lemma covers_all_split:
  assumes "fLeft r < fRight r" "fTop r < fBottom r"
  shows "(\<forall>x y. covers r x y \<longrightarrow> P x \<and> Q y) \<longleftrightarrow>
         (\<forall>x. fLeft r \<le> x \<and> x < fRight r \<longrightarrow> P x) \<and>
         (\<forall>y. fTop r \<le> y \<and> y < fBottom r \<longrightarrow> Q y)"
  unfolding covers_def
  using assms order_refl[of "fTop r"] order_refl[of "fLeft r"] by blast

lemma ClosestDisjointEdge_closest:
  assumes "\<not> isEmpty src" "\<not> isEmpty dst"
  shows "covers (ClosestDisjointEdge src dst) x y \<longleftrightarrow>
     covers src x y \<and>
     (\<forall>x' y'. covers src x' y' \<longrightarrow>
        pixel_gap (fLeft dst) (fRight dst) x \<le> pixel_gap (fLeft dst) (fRight dst) x' \<and>
        pixel_gap (fTop dst) (fBottom dst) y \<le> pixel_gap (fTop dst) (fBottom dst) y')"
proof -
  from assms have s: "fLeft src < fRight src" "fTop src < fBottom src"
    and d: "fLeft dst < fRight dst" "fTop dst < fBottom dst"
    by (simp_all add: isEmpty_def)
  define ax where "ax = (if fRight src \<le> fLeft dst then (fRight src - 1, fRight src)
            else if fRight dst \<le> fLeft src then (fLeft src, fLeft src + 1)
            else (SkTPin (fLeft src) (fLeft dst) (fRight dst), SkTPin (fRight src) (fLeft dst) (fRight dst)))"
  define ay where "ay = (if fBottom src \<le> fTop dst then (fBottom src - 1, fBottom src)
            else if fBottom dst \<le> fTop src then (fTop src, fTop src + 1)
            else (SkTPin (fTop src) (fTop dst) (fBottom dst), SkTPin (fBottom src) (fTop dst) (fBottom dst)))"
  have X: "(fst ax \<le> x \<and> x < snd ax) \<longleftrightarrow>
     (fLeft src \<le> x \<and> x < fRight src \<and>
      (\<forall>x'. fLeft src \<le> x' \<and> x' < fRight src \<longrightarrow>
         pixel_gap (fLeft dst) (fRight dst) x \<le> pixel_gap (fLeft dst) (fRight dst) x'))"
    unfolding ax_def by (rule closest_axis_minimal[OF s(1) d(1)])
  have Y: "(fst ay \<le> y \<and> y < snd ay) \<longleftrightarrow>
     (fTop src \<le> y \<and> y < fBottom src \<and>
      (\<forall>y'. fTop src \<le> y' \<and> y' < fBottom src \<longrightarrow>
         pixel_gap (fTop dst) (fBottom dst) y \<le> pixel_gap (fTop dst) (fBottom dst) y'))"
    unfolding ay_def by (rule closest_axis_minimal[OF s(2) d(2)])
  have "ClosestDisjointEdge src dst = MakeLTRB (fst ax) (fst ay) (snd ax) (snd ay)"
    using assms by (simp add: ClosestDisjointEdge_def ax_def ay_def Let_def)
  then have c: "covers (ClosestDisjointEdge src dst) x y \<longleftrightarrow>
     (fst ax \<le> x \<and> x < snd ax) \<and> (fst ay \<le> y \<and> y < snd ay)"
    by (simp add: covers_def MakeLTRB_def)
  have sp: "(\<forall>x' y'. covers src x' y' \<longrightarrow>
        pixel_gap (fLeft dst) (fRight dst) x \<le> pixel_gap (fLeft dst) (fRight dst) x' \<and>
        pixel_gap (fTop dst) (fBottom dst) y \<le> pixel_gap (fTop dst) (fBottom dst) y') \<longleftrightarrow>
     (\<forall>x'. fLeft src \<le> x' \<and> x' < fRight src \<longrightarrow>
        pixel_gap (fLeft dst) (fRight dst) x \<le> pixel_gap (fLeft dst) (fRight dst) x') \<and>
     (\<forall>y'. fTop src \<le> y' \<and> y' < fBottom src \<longrightarrow>
        pixel_gap (fTop dst) (fBottom dst) y \<le> pixel_gap (fTop dst) (fBottom dst) y')"
    by (rule covers_all_split[OF s])
  show ?thesis
    unfolding c X Y sp by (simp add: covers_def) blast
qed

lemma mapRect_10x10: "mapRect (Translate 0 0) (MakeXYWH 0 0 10 10) = MakeLTRB 0 0 10 10"
  by code_simp

lemma image_10x10_dims: "image_width (image_10x10 p) = 10" "image_height (image_10x10 p) = 10"
  by (simp_all add: image_10x10_def image_width_def image_height_def rect_width_def rect_height_def
      MakeXYWH_def MakeLTRB_def)

lemma result_10x10_eq:
  "result_10x10 p =
     \<lparr>fImage = Some (image_10x10 p), fSamplingOptions = kDefaultSampling, fTileMode = kDecal,
      fTransform = Translate 0 0, fColorFilter = None, fLayerBounds = MakeLTRB 0 0 10 10\<rparr>"
  by (simp add: result_10x10_def FilterResult_of_def origin0_def image_10x10_dims mapRect_10x10
      f32_0)

lemma nearly_Translate_0: "is_nearly_integer_translation (Translate 0 0) = Some origin0"
  by code_simp

lemma no_fill_decal:
  "fTileMode this = kDecal \<Longrightarrow> fColorFilter this = None \<Longrightarrow>
   \<not> kHasLayerFillingEffect (analyzeBounds ctx this img m dst)"
  by (simp add: analyzeBounds_def Let_def)

lemma ex1: "intersect (MakeLTRB 20 20 30 30) (MakeLTRB 0 0 10 10) = None" by code_simp
lemma ex2: "intersect (MakeLTRB 0 0 10 10) (MakeLTRB 0 0 10 10) = Some (MakeLTRB 0 0 10 10)" by code_simp
lemma ex3: "relevantSubset (MakeLTRB 0 0 10 10) (MakeLTRB 20 20 30 30) kClamp = MakeLTRB 9 9 10 10" by code_simp
lemma ex4: "intersect (MakeLTRB 0 0 10 10) (MakeLTRB 9 9 10 10) = Some (MakeLTRB 9 9 10 10)" by code_simp
lemma ex5: "periodic_axis_transform kClamp r d = None" by (simp add: periodic_axis_transform_def)
lemma ex6: "\<not> contains (MakeLTRB 9 9 10 10) (MakeLTRB 20 20 30 30)" by code_simp
lemma ex7: "contains (MakeLTRB 9 9 10 10) (MakeLTRB 9 9 10 10)" by code_simp
lemma ex8: "extract_subset (image_10x10 p) origin0 (MakeLTRB 9 9 10 10) False =
   (Some \<lparr>pixels = p, subset = MakeLTRB 9 9 10 10\<rparr>, \<lparr>fX = 9, fY = 9\<rparr>)"
  by (simp add: extract_subset_def image_10x10_def origin0_def image_width_def image_height_def
      rect_width_def rect_height_def MakeXYWH_def MakeLTRB_def relevantSubset_def intersect_def
      isEmpty_def makeSubset_def topLeft_def Let_def)
lemma ex9: "mapRect (Translate 9 9) (MakeXYWH 0 0 1 1) = MakeLTRB 9 9 10 10" by code_simp
lemma f32_9: "f32 9 = 9" by code_simp

lemma clamp_example:
  assumes "desiredOutput ctx = MakeLTRB 20 20 30 30"
  shows "applyCrop ctx (result_10x10 p) (MakeLTRB 0 0 10 10) kClamp stats =
      (\<lparr>fImage = Some \<lparr>pixels = p, subset = MakeLTRB 9 9 10 10\<rparr>,
        fSamplingOptions = kDefaultSampling, fTileMode = kClamp,
        fTransform = Translate 9 9, fColorFilter = None,
        fLayerBounds = MakeLTRB 20 20 30 30\<rparr>, stats)"
proof -
  have ne: "\<not> isEmpty (MakeLTRB 0 0 10 10)" "\<not> isEmpty (MakeLTRB 20 20 30 30)" by code_simp+
  show ?thesis
    by (simp add: applyCrop_def fit_crop_def apply_fitted_crop_def result_10x10_eq assms ne
        ex2 ex3 ex4 ex5 ex6 ex7 ex8
        nearly_Translate_0 no_fill_decal updateTileMode_def FilterResult_of_def
        image_width_def image_height_def rect_width_def rect_height_def ex9 f32_9)
qed

lemma saturate_id: "- 2147483647 \<le> n \<Longrightarrow> n \<le> 2147483647 \<Longrightarrow> sk_double_saturate2int (of_int n) = n"
  by (auto simp add: sk_double_saturate2int_def SK_MaxS32_def SK_MinS32_def Let_def)









lemma result_10x10_fields:
  "fImage (result_10x10 p) = Some (image_10x10 p)"
  "fSamplingOptions (result_10x10 p) = kDefaultSampling"
  "fTileMode (result_10x10 p) = kDecal"
  "fTransform (result_10x10 p) = Translate 0 0"
  "fColorFilter (result_10x10 p) = None"
  "fLayerBounds (result_10x10 p) = MakeLTRB 0 0 10 10"
  by (simp_all add: result_10x10_eq)


lemma kRoundEpsilon_bounds: "0 < kRoundEpsilon" "kRoundEpsilon < 1 / 2"
  by (simp_all add: kRoundEpsilon_value)
lemma round_half_even_le_int: "y \<le> of_int m \<Longrightarrow> round_half_even y \<le> m"
proof -
  assume a: "y \<le> of_int m"
  show ?thesis
  proof (cases "y = of_int m")
    case True
    then show ?thesis by (simp add: round_half_even_def Let_def)
  next
    case False
    with a have "y < of_int m" by simp
    then have "\<lfloor>y\<rfloor> < m" by (simp add: floor_less_iff)
    then have "\<lfloor>y\<rfloor> + 1 \<le> m" by simp
    moreover have "round_half_even y \<le> \<lfloor>y\<rfloor> + 1" by (simp add: round_half_even_def Let_def)
    ultimately show ?thesis by (rule order_trans[rotated])
  qed
qed

lemma round_half_even_ge_int: "of_int m \<le> y \<Longrightarrow> m \<le> round_half_even y"
proof -
  assume "of_int m \<le> y"
  then have "m \<le> \<lfloor>y\<rfloor>" by (simp add: le_floor_iff)
  then show ?thesis using round_half_even_ge[of y] by (rule order_trans)
qed

lemma round_half_even_int: "round_half_even (of_int m) = m"
  by (simp add: round_half_even_def Let_def)

lemma pow2_pos: "0 < pow2 k"
  by (simp add: pow2_powi)

lemma pow2_add: "pow2 (j + k) = pow2 j * pow2 k"
  by (simp add: pow2_powi power_int_add)

lemma pow2_mono: "j \<le> k \<Longrightarrow> pow2 j \<le> pow2 k"
  by (simp add: pow2_powi power_int_increasing)

lemma pow2_nat: "0 \<le> k \<Longrightarrow> pow2 k = of_int (2 ^ nat k)"
  by (simp add: pow2_def)

lemma f64_pos_eq:
  "0 < y \<Longrightarrow> f64 y = of_int (round_half_even (y / pow2 (binary_exponent y - 52))) * pow2 (binary_exponent y - 52)"
  by (simp add: f64_def Let_def)

lemma f64_minus: "f64 (- x) = - f64 x"
  by (simp add: f64_def Let_def)

lemma f64_0: "f64 0 = 0"
  by (simp add: f64_def)

lemma f64_grid_pos:
  assumes y: "0 < y" and a: "a = of_int m / 2 ^ 21" and bound: "a < 2 ^ 32"
  shows "(a \<le> y \<longrightarrow> a \<le> f64 y) \<and> (y \<le> a \<longrightarrow> f64 y \<le> a)"
proof -
  let ?e = "binary_exponent y"
  let ?ulp = "pow2 (?e - 52)"
  have ulp: "0 < ?ulp" by (rule pow2_pos)
  have f: "f64 y = of_int (round_half_even (y / ?ulp)) * ?ulp" by (rule f64_pos_eq[OF y])
  have low: "pow2 ?e \<le> y" by (rule binary_exponent_lower[OF y])
  have grid: "\<exists>M. a = of_int M * ?ulp" if e: "?e \<le> 31"
  proof -
    have "pow2 (- 21) = pow2 (31 - ?e) * ?ulp"
      using pow2_add[of "31 - ?e" "?e - 52"] by simp
    moreover have "pow2 (31 - ?e) = of_int (2 ^ nat (31 - ?e))" using e by (intro pow2_nat) simp
    moreover have "pow2 (- 21) = 1 / 2 ^ 21" by (simp add: pow2_def)
    ultimately have "a = of_int m * (of_int (2 ^ nat (31 - ?e)) * ?ulp)" by (simp add: a)
    then have "a = of_int (m * 2 ^ nat (31 - ?e)) * ?ulp" by (simp add: mult.assoc)
    then show ?thesis by blast
  qed
  have big: "pow2 ?e \<le> f64 y"
  proof -
    have "pow2 ?e = pow2 52 * ?ulp" using pow2_add[of 52 "?e - 52"] by simp
    moreover have "pow2 52 = of_int (2 ^ 52)" by (simp add: pow2_def)
    ultimately have p: "pow2 ?e = of_int (2 ^ 52) * ?ulp" by simp
    with low have "of_int (2 ^ 52) * ?ulp \<le> y" by simp
    then have "of_int (2 ^ 52) \<le> y / ?ulp" using ulp by (simp add: pos_le_divide_eq)
    then have "2 ^ 52 \<le> round_half_even (y / ?ulp)" by (rule round_half_even_ge_int)
    then have "(of_int (2 ^ 52) :: rat) \<le> of_int (round_half_even (y / ?ulp))"
      by (simp only: of_int_le_iff)
    then have "of_int (2 ^ 52) * ?ulp \<le> of_int (round_half_even (y / ?ulp)) * ?ulp"
      using ulp by (simp only: mult_le_cancel_right_pos)
    then show ?thesis by (simp only: p f)
  qed
  have ge: "a \<le> f64 y" if ay: "a \<le> y"
  proof (cases "?e \<le> 31")
    case True
    from grid[OF True] obtain M where M: "a = of_int M * ?ulp" by blast
    from ay have "of_int M \<le> y / ?ulp" using ulp by (simp add: M pos_le_divide_eq)
    then have "M \<le> round_half_even (y / ?ulp)" by (rule round_half_even_ge_int)
    then have "(of_int M :: rat) \<le> of_int (round_half_even (y / ?ulp))" by (simp only: of_int_le_iff)
    then have "of_int M * ?ulp \<le> of_int (round_half_even (y / ?ulp)) * ?ulp"
      using ulp by (simp only: mult_le_cancel_right_pos)
    then show ?thesis by (simp only: M f)
  next
    case False
    then have "32 \<le> ?e" by simp
    then have "pow2 32 \<le> pow2 ?e" by (rule pow2_mono)
    moreover have "pow2 32 = 2 ^ 32" by (simp add: pow2_def)
    ultimately have "a < pow2 ?e" using bound by simp
    with big show ?thesis by simp
  qed
  have le: "f64 y \<le> a" if ya: "y \<le> a"
  proof -
    have "?e \<le> 31"
    proof (rule ccontr)
      assume "\<not> ?e \<le> 31"
      then have "32 \<le> ?e" by simp
      then have "pow2 32 \<le> pow2 ?e" by (rule pow2_mono)
      moreover have "pow2 32 = 2 ^ 32" by (simp add: pow2_def)
      ultimately have "a < pow2 ?e" using bound by simp
      with low ya show False by simp
    qed
    from grid[OF this] obtain M where M: "a = of_int M * ?ulp" by blast
    from ya have "y / ?ulp \<le> of_int M" using ulp by (simp add: M pos_divide_le_eq)
    then have "round_half_even (y / ?ulp) \<le> M" by (rule round_half_even_le_int)
    then have "(of_int (round_half_even (y / ?ulp)) :: rat) \<le> of_int M" by (simp only: of_int_le_iff)
    then have "of_int (round_half_even (y / ?ulp)) * ?ulp \<le> of_int M * ?ulp"
      using ulp by (simp only: mult_le_cancel_right_pos)
    then show ?thesis by (simp only: M f)
  qed
  from ge le show ?thesis by blast
qed

lemma f64_grid:
  assumes a: "a = of_int m / 2 ^ 21" and bound: "\<bar>a\<bar> < 2 ^ 32"
  shows "(a \<le> y \<longrightarrow> a \<le> f64 y) \<and> (y \<le> a \<longrightarrow> f64 y \<le> a)"
proof -
  consider "y = 0" | "0 < y" | "y < 0" by linarith
  then show ?thesis
  proof cases
    case 1
    then show ?thesis by (simp add: f64_0)
  next
    case 2
    from bound have "a < 2 ^ 32" by simp
    from f64_grid_pos[OF 2 a this] show ?thesis .
  next
    case 3
    then have p: "0 < - y" by simp
    have a': "- a = of_int (- m) / 2 ^ 21" by (simp add: a)
    from bound have "- a < 2 ^ 32" by simp
    from f64_grid_pos[OF p a' this] show ?thesis by (simp add: f64_minus)
  qed
qed

lemma f64_int:
  assumes "\<bar>n\<bar> \<le> 2 ^ 31"
  shows "f64 (of_int n) = of_int n"
proof -
  have a: "(of_int n :: rat) = of_int (n * 2 ^ 21) / 2 ^ 21" by simp
  have "\<bar>of_int n :: rat\<bar> = of_int \<bar>n\<bar>" by simp
  also have "\<dots> \<le> of_int (2 ^ 31)" using assms by (simp only: of_int_le_iff)
  also have "\<dots> < 2 ^ 32" by simp
  finally have b: "\<bar>of_int n :: rat\<bar> < 2 ^ 32" .
  from f64_grid[OF a b, of "of_int n"] show ?thesis by simp
qed

lemma f64_near_int:
  assumes n: "\<bar>n\<bar> \<le> 2 ^ 31"
  shows "of_int n \<le> y \<Longrightarrow> of_int n \<le> f64 y"
    and "y \<le> of_int n \<Longrightarrow> f64 y \<le> of_int n"
    and "y \<le> of_int n + 1 / 2 \<Longrightarrow> f64 y \<le> of_int n + 1 / 2"
    and "of_int n - 1 / 2 \<le> y \<Longrightarrow> of_int n - 1 / 2 \<le> f64 y"
proof -
  have a: "(of_int n :: rat) = of_int (n * 2 ^ 21) / 2 ^ 21" by simp
  have "\<bar>of_int n :: rat\<bar> = of_int \<bar>n\<bar>" by simp
  also have "\<dots> \<le> of_int (2 ^ 31)" using n by (simp only: of_int_le_iff)
  finally have b0: "\<bar>of_int n :: rat\<bar> \<le> 2 ^ 31" by simp
  then have b: "\<bar>of_int n :: rat\<bar> < 2 ^ 32" by simp
  from f64_grid[OF a b, of y]
  show "of_int n \<le> y \<Longrightarrow> of_int n \<le> f64 y" and "y \<le> of_int n \<Longrightarrow> f64 y \<le> of_int n"
    by blast+
  have a2: "(of_int n + 1 / 2 :: rat) = of_int (n * 2 ^ 21 + 2 ^ 20) / 2 ^ 21" by simp
  have b2: "\<bar>of_int n + 1 / 2 :: rat\<bar> < 2 ^ 32" using b0 by (simp add: abs_if split: if_splits)
  from f64_grid[OF a2 b2, of y] show "y \<le> of_int n + 1 / 2 \<Longrightarrow> f64 y \<le> of_int n + 1 / 2" by blast
  have a3: "(of_int n - 1 / 2 :: rat) = of_int (n * 2 ^ 21 - 2 ^ 20) / 2 ^ 21" by simp
  have b3: "\<bar>of_int n - 1 / 2 :: rat\<bar> < 2 ^ 32" using b0 by (simp add: abs_if split: if_splits)
  from f64_grid[OF a3 b3, of y] show "of_int n - 1 / 2 \<le> y \<Longrightarrow> of_int n - 1 / 2 \<le> f64 y" by blast
qed

lemma kRoundEpsilon_quarter: "kRoundEpsilon < 1 / 4"
  by (simp add: kRoundEpsilon_value)

lemma floor2int_near:
  assumes "\<bar>x - of_int n\<bar> \<le> kRoundEpsilon" "- 2147483647 \<le> n" "n \<le> 2147483647"
  shows "sk_double_floor2int (f64 (x + kRoundEpsilon)) = n"
proof -
  have n: "\<bar>n\<bar> \<le> 2 ^ 31" using assms(2,3) by simp
  have lo: "of_int n \<le> x + kRoundEpsilon" using assms(1) by linarith
  have hi: "x + kRoundEpsilon \<le> of_int n + 1 / 2"
    using assms(1) kRoundEpsilon_quarter by linarith
  have "of_int n \<le> f64 (x + kRoundEpsilon)" by (rule f64_near_int(1)[OF n lo])
  moreover have "f64 (x + kRoundEpsilon) \<le> of_int n + 1 / 2" by (rule f64_near_int(3)[OF n hi])
  ultimately have "\<lfloor>f64 (x + kRoundEpsilon)\<rfloor> = n" by (intro floor_unique) linarith+
  then show ?thesis using assms(2,3) by (simp add: sk_double_floor2int_def saturate_id)
qed

lemma ceil2int_near:
  assumes "\<bar>x - of_int n\<bar> \<le> kRoundEpsilon" "- 2147483647 \<le> n" "n \<le> 2147483647"
  shows "sk_double_ceil2int (f64 (x - kRoundEpsilon)) = n"
proof -
  have n: "\<bar>n\<bar> \<le> 2 ^ 31" using assms(2,3) by simp
  have hi: "x - kRoundEpsilon \<le> of_int n" using assms(1) by linarith
  have lo: "of_int n - 1 / 2 \<le> x - kRoundEpsilon"
    using assms(1) kRoundEpsilon_quarter by linarith
  have "f64 (x - kRoundEpsilon) \<le> of_int n" by (rule f64_near_int(2)[OF n hi])
  moreover have "of_int n - 1 / 2 \<le> f64 (x - kRoundEpsilon)" by (rule f64_near_int(4)[OF n lo])
  ultimately have "\<lceil>f64 (x - kRoundEpsilon)\<rceil> = n" by (intro ceiling_unique) linarith+
  then show ?thesis using assms(2,3) by (simp add: sk_double_ceil2int_def saturate_id)
qed

lemma map_SkIRect_near_identity:
  assumes ne: "\<not> isEmpty r"
    and range: "- 2147483647 \<le> fLeft r" "fRight r \<le> 2147483647"
               "- 2147483647 \<le> fTop r" "fBottom r \<le> 2147483647"
    and st: "isScaleTranslate P"
    and l: "\<bar>mapped_edge (kMScaleX P) (kMTransX P) (fLeft r) - of_int (fLeft r)\<bar> \<le> kRoundEpsilon"
    and rr: "\<bar>mapped_edge (kMScaleX P) (kMTransX P) (fRight r) - of_int (fRight r)\<bar> \<le> kRoundEpsilon"
    and t: "\<bar>mapped_edge (kMScaleY P) (kMTransY P) (fTop r) - of_int (fTop r)\<bar> \<le> kRoundEpsilon"
    and b: "\<bar>mapped_edge (kMScaleY P) (kMTransY P) (fBottom r) - of_int (fBottom r)\<bar> \<le> kRoundEpsilon"
  shows "map_SkIRect r P = r"
proof -
  let ?l = "mapped_edge (kMScaleX P) (kMTransX P) (fLeft r)"
  let ?r = "mapped_edge (kMScaleX P) (kMTransX P) (fRight r)"
  let ?t = "mapped_edge (kMScaleY P) (kMTransY P) (fTop r)"
  let ?b = "mapped_edge (kMScaleY P) (kMTransY P) (fBottom r)"
  from ne have lt: "fLeft r < fRight r" "fTop r < fBottom r" by (simp_all add: isEmpty_def)
  then have lt': "(of_int (fLeft r) :: rat) + 1 \<le> of_int (fRight r)"
    "(of_int (fTop r) :: rat) + 1 \<le> of_int (fBottom r)"
    by (metis of_int_1 of_int_add of_int_le_iff zless_imp_add1_zle)+
  have "?l \<le> ?r" using l rr lt'(1) kRoundEpsilon_bounds by linarith
  then have mx: "min ?l ?r = ?l" "max ?l ?r = ?r" by simp_all
  have "?t \<le> ?b" using t b lt'(2) kRoundEpsilon_bounds by linarith
  then have my: "min ?t ?b = ?t" "max ?t ?b = ?b" by simp_all
  have L: "sk_double_floor2int (f64 (?l + kRoundEpsilon)) = fLeft r"
    using l range lt by (intro floor2int_near) simp_all
  have R: "sk_double_ceil2int (f64 (?r - kRoundEpsilon)) = fRight r"
    using rr range lt by (intro ceil2int_near) simp_all
  have T: "sk_double_floor2int (f64 (?t + kRoundEpsilon)) = fTop r"
    using t range lt by (intro floor2int_near) simp_all
  have B: "sk_double_ceil2int (f64 (?b - kRoundEpsilon)) = fBottom r"
    using b range lt by (intro ceil2int_near) simp_all
  have "map_SkIRect r P =
          MakeLTRB (sk_double_floor2int (f64 (min ?l ?r + kRoundEpsilon)))
                   (sk_double_floor2int (f64 (min ?t ?b + kRoundEpsilon)))
                   (sk_double_ceil2int (f64 (max ?l ?r - kRoundEpsilon)))
                   (sk_double_ceil2int (f64 (max ?t ?b - kRoundEpsilon)))"
    using ne st by (simp add: map_SkIRect_def Let_def mapped_edge_def)
  then show ?thesis
    unfolding mx my L R T B by (simp add: MakeLTRB_def)
qed

lemma mapped_edge_identity:
  assumes "\<bar>n\<bar> \<le> 2 ^ 31"
  shows "mapped_edge 1 0 n = of_int n"
  by (simp add: mapped_edge_def f64_int[OF assms])

lemma map_SkIRect_identity:
  assumes "\<not> isEmpty r" "- 2147483647 \<le> fLeft r" "fRight r \<le> 2147483647"
               "- 2147483647 \<le> fTop r" "fBottom r \<le> 2147483647"
  shows "map_SkIRect r SkMatrix_I = r"
proof -
  from assms(1) have lt: "fLeft r < fRight r" "fTop r < fBottom r" by (simp_all add: isEmpty_def)
  have n: "\<bar>fLeft r\<bar> \<le> 2 ^ 31" "\<bar>fRight r\<bar> \<le> 2 ^ 31" "\<bar>fTop r\<bar> \<le> 2 ^ 31" "\<bar>fBottom r\<bar> \<le> 2 ^ 31"
    using assms(2-5) lt by simp_all
  have f: "kMScaleX SkMatrix_I = 1" "kMScaleY SkMatrix_I = 1" "kMTransX SkMatrix_I = 0"
    "kMTransY SkMatrix_I = 0" "isScaleTranslate SkMatrix_I" 
    by (simp_all add: SkMatrix_I_def MakeAll_def isScaleTranslate_def)
  show ?thesis
    using kRoundEpsilon_bounds(1)
    by (intro map_SkIRect_near_identity assms)
       (simp_all add: f mapped_edge_identity[OF n(1)] mapped_edge_identity[OF n(2)]
          mapped_edge_identity[OF n(3)] mapped_edge_identity[OF n(4)])
qed

lemma Concat_scale_translate:
  assumes "isScaleTranslate a" "isScaleTranslate b"
  shows "isScaleTranslate (Concat a b)"
  using assms by (simp add: Concat_def isScaleTranslate_def setScaleTranslate_def MakeAll_def)

lemma invert_scale_translate:
  assumes "isScaleTranslate M" "kMScaleX M \<noteq> 0" "kMScaleY M \<noteq> 0"
  shows "\<exists>Mi. invert M = Some Mi \<and> isScaleTranslate Mi"
  using assms
  by (simp add: invert_def Let_def isScaleTranslate_def Translate_def setScaleTranslate_def MakeAll_def)

lemma f32_minus: "f32 (- x) = - f32 x"
  by (simp add: f32_def Let_def)

lemma f32_1: "f32 1 = 1"
  by code_simp

lemma invert_Translate: "invert (Translate tx ty) = Some (Translate (- tx) (- ty))"
  by (simp add: invert_def Translate_def setScaleTranslate_def MakeAll_def isScaleTranslate_def)

lemma Concat_Translate_inverse:
  assumes "f32 tx = tx" "f32 ty = ty"
  shows "Concat (Translate tx ty) (Translate (- tx) (- ty)) = SkMatrix_I"
  using assms
  by (simp add: Concat_def Translate_def setScaleTranslate_def MakeAll_def isScaleTranslate_def
      SkMatrix_I_def f32_minus f32_1 f32_0)

lemma affects_invert: "affectsTransparentBlack invert_color"
  by (simp add: affectsTransparentBlack_def invert_color_def kTransparent_def)

lemma not_affects_swap: "\<not> affectsTransparentBlack swap_red_blue"
  by (simp add: affectsTransparentBlack_def swap_red_blue_def kTransparent_def)

lemma i1: "intersect (MakeLTRB 0 0 10 10) (MakeLTRB 5 5 30 30) = Some (MakeLTRB 5 5 10 10)" by code_simp
lemma i2: "\<not> isEmpty (MakeLTRB 5 5 30 30)" by code_simp
lemma i3: "intersect (MakeLTRB 0 0 10 10) (MakeLTRB 20 20 30 30) = None" by code_simp
lemma i4: "\<not> isEmpty (MakeLTRB 20 20 30 30)" by code_simp

lemma example_context_fields:
  "desiredOutput (example_context d) = d"
  "makeDevice (example_context d) w h = True"
  "drawn (example_context d) f b = 1"
  "painted (example_context d) c = 2"
  "QuadContainsRect (example_context d) = example_QuadContainsRect"
  by (simp_all add: example_context_def)

lemma i5: "surface_ok (example_context d) (MakeXYWH 20 20 1 1)"
  by (simp add: surface_ok_def example_context_fields) code_simp

lemma i6: "fLeft (MakeLTRB 20 20 30 30) = 20" "fTop (MakeLTRB 20 20 30 30) = 20"
  by (simp_all add: MakeLTRB_def)

lemma updateTileMode_bounds:
  "fImage this \<noteq> None \<Longrightarrow> tileMode \<noteq> kDecal \<Longrightarrow>
     fLayerBounds (updateTileMode ctx tileMode this) = desiredOutput ctx \<and>
     fTileMode (updateTileMode ctx tileMode this) = tileMode"
  by (simp add: updateTileMode_def)

lemma updateTileMode_image: "fImage (updateTileMode ctx tileMode this) = fImage this"
  by (simp add: updateTileMode_def)

lemma fit_crop_cases:
  assumes "fit_crop ctx this tileMode fittedCrop cropContent = (tileMode1, fittedCrop1, preserve)"
  shows "(tileMode = kDecal \<and> tileMode1 = kDecal \<and> fittedCrop1 = cropContent \<and> \<not> preserve) \<or>
         (tileMode \<noteq> kDecal \<and> contains fittedCrop (desiredOutput ctx) \<and> tileMode1 = kDecal \<and>
            fittedCrop1 = desiredOutput ctx \<and> \<not> preserve) \<or>
         (tileMode \<noteq> kDecal \<and> \<not> contains fittedCrop (desiredOutput ctx) \<and> tileMode1 = tileMode)"
  using assms by (auto simp add: fit_crop_def split: if_split_asm)

lemma apply_fitted_crop_non_decal:
  assumes "tileMode \<noteq> kDecal"
    and "fImage (fst (apply_fitted_crop ctx this img tileMode fittedCrop preserve stats)) \<noteq> None"
  shows "fLayerBounds (fst (apply_fitted_crop ctx this img tileMode fittedCrop preserve stats))
           = desiredOutput ctx \<and>
         fTileMode (fst (apply_fitted_crop ctx this img tileMode fittedCrop preserve stats))
           = tileMode"
proof -
  let ?sel = "(if preserve then None
               else case is_nearly_integer_translation (fTransform this) of
                      None \<Rightarrow> None
                    | Some origin \<Rightarrow>
                        if (fTileMode this = kClamp \<and> tileMode = kClamp) \<or>
                           \<not> kHasLayerFillingEffect
                               (analyzeBounds ctx this img SkMatrix_I fittedCrop)
                        then Some origin else None)"
  show ?thesis
  proof (cases ?sel)
    case None
    obtain r st where r: "resolve ctx this fittedCrop True stats = (r, st)"
      by (cases "resolve ctx this fittedCrop True stats")
    from None assms show ?thesis
      by (simp add: apply_fitted_crop_def Let_def r updateTileMode_image updateTileMode_bounds)
  next
    case (Some origin)
    with assms show ?thesis
      by (simp add: apply_fitted_crop_def Let_def updateTileMode_image updateTileMode_bounds)
  qed
qed

lemma applyCrop_empty_early:
  "isEmpty crop \<or> isEmpty (desiredOutput ctx) \<Longrightarrow>
     applyCrop ctx this crop tileMode stats = (FilterResult_empty, stats)"
  "fImage this = None \<Longrightarrow> applyCrop ctx this crop tileMode stats = (FilterResult_empty, stats)"
  "intersect crop (fLayerBounds this) = None \<Longrightarrow>
     applyCrop ctx this crop tileMode stats = (FilterResult_empty, stats)"
  "intersect crop (fLayerBounds this) = Some c0 \<Longrightarrow>
   intersect c0 (relevantSubset crop (desiredOutput ctx) tileMode) = None \<Longrightarrow>
     applyCrop ctx this crop tileMode stats = (FilterResult_empty, stats)"
  by (simp_all add: applyCrop_def split: option.splits)

lemma applyCrop_late:
  assumes "\<not> isEmpty crop" "\<not> isEmpty (desiredOutput ctx)" "fImage this = Some img"
    and "intersect crop (fLayerBounds this) = Some c0"
    and "intersect c0 (relevantSubset crop (desiredOutput ctx) tileMode) = Some c1"
  shows "applyCrop ctx this crop tileMode stats =
     (case periodic_axis_transform tileMode (relevantSubset crop (desiredOutput ctx) tileMode)
             (desiredOutput ctx) of
        Some periodicTransform \<Rightarrow>
          applyTransform ctx this periodicTransform kDefaultSampling stats
      | None \<Rightarrow>
          (case fit_crop ctx this tileMode (relevantSubset crop (desiredOutput ctx) tileMode) c1 of
             (tileMode1, fittedCrop, preserveTransparencyInCrop) \<Rightarrow>
               apply_fitted_crop ctx this img tileMode1 fittedCrop
                 preserveTransparencyInCrop stats))"
  using assms by (simp add: applyCrop_def)

lemma applyCrop_nonempty_cases:
  assumes "fImage (fst (applyCrop ctx this crop tileMode stats)) \<noteq> None"
  obtains img c0 c1 where "\<not> isEmpty crop" "\<not> isEmpty (desiredOutput ctx)"
    "fImage this = Some img" "intersect crop (fLayerBounds this) = Some c0"
    "intersect c0 (relevantSubset crop (desiredOutput ctx) tileMode) = Some c1"
proof -
  from assms have ne: "\<not> isEmpty crop" "\<not> isEmpty (desiredOutput ctx)"
    using applyCrop_empty_early(1)[of crop ctx this tileMode stats]
    by (auto simp add: FilterResult_empty_fields)
  from assms obtain img where img: "fImage this = Some img"
    using applyCrop_empty_early(2)[of this ctx crop tileMode stats]
    by (cases "fImage this") (auto simp add: FilterResult_empty_fields)
  from assms obtain c0 where c0: "intersect crop (fLayerBounds this) = Some c0"
    using applyCrop_empty_early(3)[of crop this ctx tileMode stats]
    by (cases "intersect crop (fLayerBounds this)") (auto simp add: FilterResult_empty_fields)
  from assms obtain c1 where
    c1: "intersect c0 (relevantSubset crop (desiredOutput ctx) tileMode) = Some c1"
    using applyCrop_empty_early(4)[OF c0, of ctx tileMode stats]
    by (cases "intersect c0 (relevantSubset crop (desiredOutput ctx) tileMode)")
       (auto simp add: FilterResult_empty_fields)
  from ne img c0 c1 show thesis by (rule that)
qed

lemma applyCrop_non_decal_bounds:
  assumes "tileMode \<noteq> kDecal"
    and "periodic_axis_transform tileMode (relevantSubset crop (desiredOutput ctx) tileMode)
           (desiredOutput ctx) = None"
    and "\<not> contains (relevantSubset crop (desiredOutput ctx) tileMode) (desiredOutput ctx)"
    and "fImage (fst (applyCrop ctx this crop tileMode stats)) \<noteq> None"
  shows "fLayerBounds (fst (applyCrop ctx this crop tileMode stats)) = desiredOutput ctx \<and>
         fTileMode (fst (applyCrop ctx this crop tileMode stats)) = tileMode"
proof -
  from assms(4) obtain img c0 c1 where h: "\<not> isEmpty crop" "\<not> isEmpty (desiredOutput ctx)"
    "fImage this = Some img" "intersect crop (fLayerBounds this) = Some c0"
    "intersect c0 (relevantSubset crop (desiredOutput ctx) tileMode) = Some c1"
    by (rule applyCrop_nonempty_cases)
  obtain t f p where fc: "fit_crop ctx this tileMode
       (relevantSubset crop (desiredOutput ctx) tileMode) c1 = (t, f, p)"
    by (cases "fit_crop ctx this tileMode (relevantSubset crop (desiredOutput ctx) tileMode) c1")
  from fit_crop_cases[OF fc] assms(1,3) have t: "t = tileMode" by auto
  have eq: "applyCrop ctx this crop tileMode stats = apply_fitted_crop ctx this img tileMode f p stats"
    by (simp add: applyCrop_late[OF h] assms(2) fc t)
  show ?thesis
    using apply_fitted_crop_non_decal[OF assms(1), of ctx this img f p stats] assms(4)
    unfolding eq by simp
qed

lemma applyColorFilter_affecting_bounds:
  assumes "affectsTransparentBlack cf"
    and "fImage (fst (applyColorFilter ctx this cf stats)) \<noteq> None"
  shows "fLayerBounds (fst (applyColorFilter ctx this cf stats)) = desiredOutput ctx"
proof (cases "isEmpty (desiredOutput ctx)")
  case True
  with assms(2) show ?thesis by (simp add: applyColorFilter_def FilterResult_empty_fields)
next
  case ne: False
  let ?clipped = "(case fImage this of
                 None \<Rightarrow> None
               | Some img \<Rightarrow>
                   (case intersect (fLayerBounds this) (desiredOutput ctx) of
                      None \<Rightarrow> None
                    | Some newLayerBounds \<Rightarrow> Some (img, newLayerBounds)))"
  show ?thesis
  proof (cases ?clipped)
    case None
    with assms ne show ?thesis
      by (simp add: applyColorFilter_def Let_def updateTileMode_image updateTileMode_bounds)
  next
    case (Some a)
    obtain img b where a: "a = (img, b)" by (cases a)
    show ?thesis
    proof (cases "kRequiresLayerCrop (analyzeBounds ctx this img SkMatrix_I (desiredOutput ctx))")
      case True
      obtain r st where r: "resolve ctx this (case intersect (outset b 1 1) (desiredOutput ctx) of
                              Some r \<Rightarrow> r | None \<Rightarrow> outset b 1 1) True stats = (r, st)"
        by (cases "resolve ctx this (case intersect (outset b 1 1) (desiredOutput ctx) of
                              Some r \<Rightarrow> r | None \<Rightarrow> outset b 1 1) True stats")
      have fi: "fImage ((FilterResult_of r)\<lparr>fColorFilter := Some cf\<rparr>) = fImage (FilterResult_of r)"
        by simp
      from assms ne Some a True r show ?thesis
        by (simp add: applyColorFilter_def Let_def updateTileMode_image updateTileMode_bounds)
    next
      case False
      with assms ne Some a show ?thesis
        by (simp add: applyColorFilter_def Let_def)
    qed
  qed
qed
lemma clamped_10x10_fields:
  "fImage (clamped_10x10 p) = Some (image_10x10 p)"
  "fSamplingOptions (clamped_10x10 p) = kDefaultSampling"
  "fTileMode (clamped_10x10 p) = kClamp"
  "fTransform (clamped_10x10 p) = Translate 0 0"
  "fColorFilter (clamped_10x10 p) = None"
  "fLayerBounds (clamped_10x10 p) = MakeLTRB 0 0 30 30"
  by (simp_all add: clamped_10x10_def result_10x10_fields)

lemma j1: "\<not> isEmpty (MakeLTRB 0 0 10 10)" "\<not> isEmpty (MakeLTRB 0 0 30 30)" "\<not> isEmpty (MakeLTRB 0 0 20 20)"
  by code_simp+
lemma j2: "relevantSubset (MakeLTRB 0 0 10 10) (MakeLTRB 0 0 30 30) kClamp = MakeLTRB 0 0 10 10" by code_simp
lemma j3: "\<not> contains (MakeLTRB 0 0 10 10) (MakeLTRB 0 0 30 30)" by code_simp
lemma j4: "contains (MakeLTRB 0 0 10 10) (MakeLTRB 0 0 10 10)" by code_simp
lemma j5: "extract_subset (image_10x10 p) origin0 (MakeLTRB 0 0 10 10) False = (Some (image_10x10 p), origin0)"
  by (simp add: extract_subset_def image_10x10_dims origin0_def) 
     (simp add: image_10x10_def relevantSubset_def intersect_def isEmpty_def MakeXYWH_def MakeLTRB_def
        makeSubset_def topLeft_def Let_def)

lemma first_crop:
  assumes "desiredOutput ctx = MakeLTRB 0 0 30 30"
  shows "applyCrop ctx (result_10x10 p) (MakeLTRB 0 0 10 10) kClamp stats = (clamped_10x10 p, stats)"
proof -
  have a: "applyCrop ctx (result_10x10 p) (MakeLTRB 0 0 10 10) kClamp stats =
      apply_fitted_crop ctx (result_10x10 p) (image_10x10 p) kClamp (MakeLTRB 0 0 10 10) False stats"
    by (subst applyCrop_late[where img = "image_10x10 p" and ?c0.0 = "MakeLTRB 0 0 10 10"
          and ?c1.0 = "MakeLTRB 0 0 10 10"])
       (simp_all add: assms j1 j2 j3 j4 ex2 ex5 result_10x10_fields fit_crop_def)
  have b: "apply_fitted_crop ctx (result_10x10 p) (image_10x10 p) kClamp (MakeLTRB 0 0 10 10) False stats
      = (clamped_10x10 p, stats)"
  proof -
    have e: "FilterResult_of (extract_subset (image_10x10 p) origin0 (MakeLTRB 0 0 10 10) False)
               = result_10x10 p"
      by (simp add: j5 result_10x10_def)
    have u: "updateTileMode ctx kClamp ((result_10x10 p)\<lparr>fColorFilter := None\<rparr>) = clamped_10x10 p"
      by (simp add: updateTileMode_def assms clamped_10x10_def result_10x10_eq)
    show ?thesis
      by (simp add: apply_fitted_crop_def result_10x10_fields nearly_Translate_0 no_fill_decal e u)
  qed
  show ?thesis by (simp only: a b)
qed

lemma k1: "intersect (MakeLTRB 0 0 20 20) (MakeLTRB 0 0 30 30) = Some (MakeLTRB 0 0 20 20)" by code_simp
lemma k2: "relevantSubset (MakeLTRB 0 0 20 20) (MakeLTRB 0 0 30 30) kDecal = MakeLTRB 0 0 20 20" by code_simp
lemma k3: "intersect (MakeLTRB 0 0 20 20) (MakeLTRB 0 0 20 20) = Some (MakeLTRB 0 0 20 20)" by code_simp
lemma k4: "periodic_axis_transform kDecal r d = None" by (simp add: periodic_axis_transform_def)
lemma q1: "example_QuadContainsRect SkMatrix_I (SkRect_Make (MakeLTRB 0 0 30 30))
     (SkRect_Make (MakeLTRB 0 0 20 20)) kRoundEpsilon" by code_simp
lemma q2: "\<not> example_QuadContainsRect (postConcat (Translate 0 0) SkMatrix_I)
     (SkRect_Make (image_dimensions (image_10x10 (0::nat)))) (SkRect_Make (MakeLTRB 0 0 20 20)) kRoundEpsilon"
  by code_simp
lemma k5: "kHasLayerFillingEffect (analyzeBounds (example_context (MakeLTRB 0 0 30 30))
     (clamped_10x10 (0::nat)) (image_10x10 0) SkMatrix_I (MakeLTRB 0 0 20 20))"
  by (simp add: analyzeBounds_def Let_def clamped_10x10_fields example_context_fields q1 q2)

section \<open>Downscale step count (claim C2)\<close>

text \<open>
  Claim C2, as amended. For a positive scale factor \<open>s\<close> let \<open>n\<close> be the saturated ceiling
  of the float quotient \<open>1 / s\<close> and \<open>k = SkNextLog2 n\<close>. Then \<open>k\<close> is the least exponent
  with \<open>n \<le> 2 ^ k\<close>, and the step count is \<open>k\<close>, reduced by one exactly when \<open>k\<close> is positive
  and the final step's scale \<open>s \<cdot> 2 ^ (k - 1)\<close> reaches the limit (the float \<open>0.8\<close> when
  \<open>k > 1\<close>, the float \<open>1 - kRoundEpsilon\<close> when \<open>k = 1\<close>). At the floats nearest to
  \<open>0.1\<close>, \<open>0.49\<close> and \<open>0.81\<close> the count is 3, 1 and 1.
\<close>

theorem downscale_step_count_amended:
  assumes "0 < s" and "n = sk_float_ceil2int (f32 (1 / s))" and "k = SkNextLog2 n"
  shows "1 \<le> n \<and> 0 \<le> k \<and> n \<le> 2 ^ nat k \<and> (0 < k \<longrightarrow> 2 ^ nat (k - 1) < n) \<and>
         downscale_step_count s =
           (if 0 < k \<and>
               (if k = 1 then kNearIdentityLimit else kMultiPassLimit)
                 \<le> f32 (s * of_int (2 ^ nat (k - 1)))
            then k - 1 else k) \<and>
         downscale_step_count (f32 (1 / 10)) = 3 \<and>
         downscale_step_count (f32 (49 / 100)) = 1 \<and>
         downscale_step_count (f32 (81 / 100)) = 1"
proof -
  have pos: "0 < f32 (1 / s)" using assms(1) by (intro f32_pos) simp
  have n: "1 \<le> n \<and> n \<le> 2 ^ 31" unfolding assms(2) by (rule sk_float_ceil2int_bounds[OF pos])
  then have k: "0 \<le> k \<and> n \<le> 2 ^ nat k \<and> (0 < k \<longrightarrow> 2 ^ nat (k - 1) < n)"
    unfolding assms(3) by (intro SkNextLog2_bounds) simp_all
  have d: "downscale_step_count s =
           (if 0 < k \<and>
               (if k = 1 then kNearIdentityLimit else kMultiPassLimit)
                 \<le> f32 (s * of_int (2 ^ nat (k - 1)))
            then k - 1 else k)"
    by (simp add: downscale_step_count_def Let_def assms(2,3))
  have v1: "downscale_step_count (f32 (1 / 10)) = 3" by code_simp
  have v2: "downscale_step_count (f32 (49 / 100)) = 1" by code_simp
  have v3: "downscale_step_count (f32 (81 / 100)) = 1" by code_simp
  show ?thesis using n k d v1 v2 v3 by blast
qed

text \<open>Claim C2: the amended statement at \<open>s = 1 / 4\<close>, where \<open>n = 4\<close> and \<open>k = 2\<close>.\<close>

theorem downscale_step_count_amended_witness:
  "(0::rat) < 1 / 4 \<and> sk_float_ceil2int (f32 (1 / (1 / 4))) = 4 \<and> SkNextLog2 4 = 2 \<and>
   downscale_step_count (1 / 4) = 2 \<and> downscale_step_count (f32 (81 / 100)) = 1"
proof -
  have a: "(0::rat) < 1 / 4" by simp
  have b: "(4::int) = sk_float_ceil2int (f32 (1 / (1 / 4)))" by code_simp
  have c: "(2::int) = SkNextLog2 4" by code_simp
  have e: "f32 (1 / 2) = 1 / 2" by code_simp
  have f: "kMultiPassLimit = 13421773 / 16777216" by code_simp
  show ?thesis using downscale_step_count_amended[OF a b c] b c by (simp add: e f)
qed

text \<open>
  Claim C2 as stated gives \<open>downscale_step_count(0.81) = 0\<close>. The code returns 1: one step is
  needed, and a single step is only dropped when its scale is at least \<open>1 - kRoundEpsilon\<close>.
\<close>

theorem downscale_step_count_081_counterexample:
  "downscale_step_count (f32 (81 / 100)) \<noteq> 0"
  by code_simp

section \<open>Inverse mapping of integer rectangles (claim C10)\<close>

text \<open>
  Claim C10. \<open>inverseMapRect\<close> on an integer rectangle succeeds with the empty rectangle for
  every empty input, whatever the matrix; for a scale-translate matrix with a zero X or Y
  scale and a non-empty input it fails.
\<close>

theorem inverseMapRect_empty_or_singular:
  "(isEmpty rect \<longrightarrow> inverseMapRect m rect = Some MakeEmpty \<and> isEmpty MakeEmpty) \<and>
   (\<not> isEmpty rect \<and> isScaleTranslate m \<and> (kMScaleX m = 0 \<or> kMScaleY m = 0)
      \<longrightarrow> inverseMapRect m rect = None)"
  by (simp add: inverseMapRect_def isEmpty_MakeEmpty)

text \<open>
  Claim C10 at an empty rectangle with a matrix that is not even affine, and at a
  non-empty rectangle with a zero X scale.
\<close>

theorem inverseMapRect_empty_or_singular_witness:
  "isEmpty (MakeLTRB 5 5 5 9) \<and>
   inverseMapRect (MakeAll 1 2 3 4 5 6 7 8 9) (MakeLTRB 5 5 5 9) = Some MakeEmpty \<and>
   \<not> isEmpty (MakeLTRB 0 0 4 4) \<and> isScaleTranslate (setScaleTranslate 0 2 1 1) \<and>
   inverseMapRect (setScaleTranslate 0 2 1 1) (MakeLTRB 0 0 4 4) = None"
  using inverseMapRect_empty_or_singular[of "MakeLTRB 5 5 5 9" "MakeAll 1 2 3 4 5 6 7 8 9"]
        inverseMapRect_empty_or_singular[of "MakeLTRB 0 0 4 4" "setScaleTranslate 0 2 1 1"]
  by (simp add: isEmpty_def MakeLTRB_def isScaleTranslate_def setScaleTranslate_def MakeAll_def)

section \<open>Empty results of applyCrop (claim C5)\<close>

text \<open>
  Claim C5. \<open>applyCrop\<close> returns the empty result, and creates no surface, when the crop is
  empty, or the desired output is empty, or the receiver has no image, or the crop and the
  receiver's layer bounds have no pixel in common. The empty result has no image, no colour
  filter and empty layer bounds.
\<close>

theorem applyCrop_empty_result:
  assumes "isEmpty crop \<or> isEmpty (desiredOutput ctx) \<or> fImage this = None \<or>
           (\<forall>x y. \<not> (covers crop x y \<and> covers (fLayerBounds this) x y))"
  shows "applyCrop ctx this crop tileMode stats = (FilterResult_empty, stats) \<and>
         fImage (FilterResult_empty :: 'p FilterResult) = None \<and>
         fColorFilter (FilterResult_empty :: 'p FilterResult) = None \<and>
         isEmpty (fLayerBounds (FilterResult_empty :: 'p FilterResult))"
proof -
  have "intersect crop (fLayerBounds this) = None"
    if "\<forall>x y. \<not> (covers crop x y \<and> covers (fLayerBounds this) x y)"
    using that by (simp add: intersect_None_iff)
  with assms have "applyCrop ctx this crop tileMode stats = (FilterResult_empty, stats)"
    by (auto simp add: applyCrop_def split: option.splits)
  then show ?thesis by (simp add: FilterResult_empty_fields isEmpty_MakeEmpty)
qed

text \<open>Claim C5 for a 10 by 10 image at the origin and a crop away from it.\<close>

theorem applyCrop_empty_result_witness:
  "(\<forall>x y. \<not> (covers (MakeLTRB 20 20 30 30) x y \<and>
               covers (fLayerBounds (result_10x10 (0::nat))) x y)) \<and>
   applyCrop (example_context (MakeLTRB 0 0 40 40)) (result_10x10 0) (MakeLTRB 20 20 30 30)
     kRepeat 0 = (FilterResult_empty, 0)"
proof -
  have h: "\<forall>x y. \<not> (covers (MakeLTRB 20 20 30 30) x y \<and>
                      covers (fLayerBounds (result_10x10 (0::nat))) x y)"
    by (simp add: result_10x10_eq covers_def MakeLTRB_def)
  show ?thesis
    using h applyCrop_empty_result[of "MakeLTRB 20 20 30 30" "example_context (MakeLTRB 0 0 40 40)"
        "result_10x10 0" kRepeat 0]
    by blast
qed

section \<open>The relevant subset of a rectangle (claim C6)\<close>

text \<open>
  Claim C6, as amended. \<open>relevantSubset\<close> under decal returns the intersection of the source
  with the destination and the empty rectangle when they share no pixel; under clamp it
  returns the intersection when there is one and otherwise the closest disjoint edge, which
  for non-empty rectangles is a non-empty row, column or corner of the source; under repeat
  and mirror it returns the source. The closest disjoint edge of non-empty rectangles
  consists of exactly the pixels of the source that are closest to the destination: those
  whose distance to the destination is least among the pixels of the source, on each axis. For a 10 by 10 image at the origin, cropping to
  \<open>[0,0,10,10]\<close> with clamp tiling and desired output \<open>[20,20,30,30]\<close> gives the single
  pixel at \<open>(9,9)\<close>, clamp-tiled over \<open>[20,20,30,30]\<close>, without a new surface.
\<close>

theorem relevantSubset_cases:
  "relevantSubset src dst kDecal = (case intersect src dst of Some r \<Rightarrow> r | None \<Rightarrow> MakeEmpty) \<and>
   relevantSubset src dst kClamp =
     (case intersect src dst of Some r \<Rightarrow> r | None \<Rightarrow> ClosestDisjointEdge src dst) \<and>
   relevantSubset src dst kRepeat = src \<and>
   relevantSubset src dst kMirror = src \<and>
   (\<forall>r. intersect src dst = Some r \<longrightarrow>
        (\<forall>x y. covers r x y \<longleftrightarrow> covers src x y \<and> covers dst x y)) \<and>
   (intersect src dst = None \<longleftrightarrow> (\<forall>x y. \<not> (covers src x y \<and> covers dst x y))) \<and>
   (\<not> isEmpty src \<and> \<not> isEmpty dst \<and> intersect src dst = None \<longrightarrow>
      \<not> isEmpty (ClosestDisjointEdge src dst) \<and>
      (\<forall>x y. covers (ClosestDisjointEdge src dst) x y \<longrightarrow> covers src x y) \<and>
      (rect_width (ClosestDisjointEdge src dst) = 1 \<or>
       rect_height (ClosestDisjointEdge src dst) = 1)) \<and>
   (\<not> isEmpty src \<and> \<not> isEmpty dst \<longrightarrow>
      (\<forall>x y. covers (ClosestDisjointEdge src dst) x y \<longleftrightarrow>
         covers src x y \<and>
         (\<forall>x' y'. covers src x' y' \<longrightarrow>
            pixel_gap (fLeft dst) (fRight dst) x \<le> pixel_gap (fLeft dst) (fRight dst) x' \<and>
            pixel_gap (fTop dst) (fBottom dst) y \<le> pixel_gap (fTop dst) (fBottom dst) y'))) \<and>
   (desiredOutput ctx = MakeLTRB 20 20 30 30 \<longrightarrow>
      applyCrop ctx (result_10x10 p) (MakeLTRB 0 0 10 10) kClamp stats =
        (\<lparr>fImage = Some \<lparr>pixels = p, subset = MakeLTRB 9 9 10 10\<rparr>,
          fSamplingOptions = kDefaultSampling, fTileMode = kClamp,
          fTransform = Translate 9 9, fColorFilter = None,
          fLayerBounds = MakeLTRB 20 20 30 30\<rparr>, stats))"
proof -
  have a: "relevantSubset src dst kDecal =
             (case intersect src dst of Some r \<Rightarrow> r | None \<Rightarrow> MakeEmpty)"
    by (simp add: relevantSubset_def split: option.splits)
  have b: "relevantSubset src dst kClamp =
             (case intersect src dst of Some r \<Rightarrow> r | None \<Rightarrow> ClosestDisjointEdge src dst)"
    by (simp add: relevantSubset_def split: option.splits)
  have c: "relevantSubset src dst kRepeat = src" "relevantSubset src dst kMirror = src"
    by (simp_all add: relevantSubset_def)
  have d: "\<forall>r. intersect src dst = Some r \<longrightarrow>
        (\<forall>x y. covers r x y \<longleftrightarrow> covers src x y \<and> covers dst x y)"
    using intersect_Some_covers by blast
  note e = intersect_None_iff[of src dst]
  have f: "\<not> isEmpty src \<and> \<not> isEmpty dst \<and> intersect src dst = None \<longrightarrow>
      \<not> isEmpty (ClosestDisjointEdge src dst) \<and>
      (\<forall>x y. covers (ClosestDisjointEdge src dst) x y \<longrightarrow> covers src x y) \<and>
      (rect_width (ClosestDisjointEdge src dst) = 1 \<or>
       rect_height (ClosestDisjointEdge src dst) = 1)"
    using ClosestDisjointEdge_shape by blast
  have cl: "\<not> isEmpty src \<and> \<not> isEmpty dst \<longrightarrow>
      (\<forall>x y. covers (ClosestDisjointEdge src dst) x y \<longleftrightarrow>
         covers src x y \<and>
         (\<forall>x' y'. covers src x' y' \<longrightarrow>
            pixel_gap (fLeft dst) (fRight dst) x \<le> pixel_gap (fLeft dst) (fRight dst) x' \<and>
            pixel_gap (fTop dst) (fBottom dst) y \<le> pixel_gap (fTop dst) (fBottom dst) y'))"
    using ClosestDisjointEdge_closest by blast
  have g: "desiredOutput ctx = MakeLTRB 20 20 30 30 \<longrightarrow>
      applyCrop ctx (result_10x10 p) (MakeLTRB 0 0 10 10) kClamp stats =
        (\<lparr>fImage = Some \<lparr>pixels = p, subset = MakeLTRB 9 9 10 10\<rparr>,
          fSamplingOptions = kDefaultSampling, fTileMode = kClamp,
          fTransform = Translate 9 9, fColorFilter = None,
          fLayerBounds = MakeLTRB 20 20 30 30\<rparr>, stats)"
    by (simp add: clamp_example)
  show ?thesis by (intro conjI; fact a b c d e f cl g)
qed

text \<open>
  Claim C6 at the source \<open>[0,0,10,10]\<close> and the destination \<open>[20,20,30,30]\<close>, which share
  no pixel: the closest disjoint edge is the corner pixel \<open>[9,9,10,10]\<close>, at distance 11 from
  the destination on each axis, where the opposite corner \<open>(0,0)\<close> is at distance 20.
\<close>

theorem relevantSubset_cases_witness:
  "intersect (MakeLTRB 0 0 10 10) (MakeLTRB 20 20 30 30) = None \<and>
   \<not> isEmpty (MakeLTRB 0 0 10 10) \<and> \<not> isEmpty (MakeLTRB 20 20 30 30) \<and>
   relevantSubset (MakeLTRB 0 0 10 10) (MakeLTRB 20 20 30 30) kDecal = MakeEmpty \<and>
   relevantSubset (MakeLTRB 0 0 10 10) (MakeLTRB 20 20 30 30) kClamp = MakeLTRB 9 9 10 10 \<and>
   rect_width (ClosestDisjointEdge (MakeLTRB 0 0 10 10) (MakeLTRB 20 20 30 30)) = 1 \<and>
   covers (ClosestDisjointEdge (MakeLTRB 0 0 10 10) (MakeLTRB 20 20 30 30)) 9 9 \<and>
   covers (MakeLTRB 0 0 10 10) 0 0 \<and>
   \<not> covers (ClosestDisjointEdge (MakeLTRB 0 0 10 10) (MakeLTRB 20 20 30 30)) 0 0 \<and>
   pixel_gap 20 30 9 \<le> pixel_gap 20 30 0 \<and>
   desiredOutput (example_context (MakeLTRB 20 20 30 30)) = MakeLTRB 20 20 30 30 \<and>
   fTileMode (fst (applyCrop (example_context (MakeLTRB 20 20 30 30)) (result_10x10 0)
                     (MakeLTRB 0 0 10 10) kClamp 0)) = kClamp"
proof -
  have i: "intersect (MakeLTRB 0 0 10 10) (MakeLTRB 20 20 30 30) = None" by code_simp
  have n: "\<not> isEmpty (MakeLTRB 0 0 10 10)" "\<not> isEmpty (MakeLTRB 20 20 30 30)" by code_simp+
  have w: "rect_width (ClosestDisjointEdge (MakeLTRB 0 0 10 10) (MakeLTRB 20 20 30 30)) = 1"
    by code_simp
  have e: "ClosestDisjointEdge (MakeLTRB 0 0 10 10) (MakeLTRB 20 20 30 30) = MakeLTRB 9 9 10 10"
    by code_simp
  have o: "desiredOutput (example_context (MakeLTRB 20 20 30 30)) = MakeLTRB 20 20 30 30"
    by (simp add: example_context_def)
  have cv: "covers (ClosestDisjointEdge (MakeLTRB 0 0 10 10) (MakeLTRB 20 20 30 30)) 9 9"
    "covers (MakeLTRB 0 0 10 10) 0 0"
    "\<not> covers (ClosestDisjointEdge (MakeLTRB 0 0 10 10) (MakeLTRB 20 20 30 30)) 0 0" by code_simp+
  have fl: "fLeft (MakeLTRB 20 20 30 30) = 20" "fRight (MakeLTRB 20 20 30 30) = 30"
    by (simp_all add: MakeLTRB_def)
  note T = relevantSubset_cases[of "MakeLTRB 0 0 10 10" "MakeLTRB 20 20 30 30"
        "example_context (MakeLTRB 20 20 30 30)" "0::nat" "0::nat"]
  note Ta = T[THEN conjunct1]
  note Tb = T[THEN conjunct2, THEN conjunct1]
  note Tc = T[THEN conjunct2, THEN conjunct2, THEN conjunct2, THEN conjunct2, THEN conjunct2,
              THEN conjunct2, THEN conjunct2, THEN conjunct1, rule_format, OF conjI, OF n]
  note Tg = T[THEN conjunct2, THEN conjunct2, THEN conjunct2, THEN conjunct2, THEN conjunct2,
              THEN conjunct2, THEN conjunct2, THEN conjunct2, rule_format, OF o]
  have d: "relevantSubset (MakeLTRB 0 0 10 10) (MakeLTRB 20 20 30 30) kDecal = MakeEmpty"
    using Ta by (simp add: i)
  have c: "relevantSubset (MakeLTRB 0 0 10 10) (MakeLTRB 20 20 30 30) kClamp = MakeLTRB 9 9 10 10"
    using Tb by (simp add: i e)
  from Tc[of 9 9] cv(1)
  have "\<forall>x' y'. covers (MakeLTRB 0 0 10 10) x' y' \<longrightarrow>
            pixel_gap (fLeft (MakeLTRB 20 20 30 30)) (fRight (MakeLTRB 20 20 30 30)) 9
              \<le> pixel_gap (fLeft (MakeLTRB 20 20 30 30)) (fRight (MakeLTRB 20 20 30 30)) x' \<and>
            pixel_gap (fTop (MakeLTRB 20 20 30 30)) (fBottom (MakeLTRB 20 20 30 30)) 9
              \<le> pixel_gap (fTop (MakeLTRB 20 20 30 30)) (fBottom (MakeLTRB 20 20 30 30)) y'"
    by (rule iffD1[THEN conjunct2])
  from this[rule_format, OF cv(2), THEN conjunct1]
  have g: "pixel_gap 20 30 9 \<le> pixel_gap 20 30 0" by (simp only: fl)
  have t: "fTileMode (fst (applyCrop (example_context (MakeLTRB 20 20 30 30)) (result_10x10 0)
                     (MakeLTRB 0 0 10 10) kClamp 0)) = kClamp"
    by (simp add: Tg)
  from i n d c w cv g o t show ?thesis by (intro conjI)
qed


text \<open>
  Claim C6 as stated crops the 10 by 10 image at the origin to \<open>[20,20,30,30]\<close>. That crop
  shares no pixel with the image's layer bounds \<open>[0,0,10,10]\<close>, so \<open>applyCrop\<close> returns the
  empty result and not the stretched corner pixel.
\<close>

theorem applyCrop_clamp_disjoint_counterexample:
 "applyCrop (example_context (MakeLTRB 20 20 30 30)) (result_10x10 0) (MakeLTRB 20 20 30 30) kClamp 0
   = (FilterResult_empty, 0)"
proof -
  have ne: "\<not> isEmpty (MakeLTRB 20 20 30 30)" by code_simp
  show ?thesis
    by (simp add: applyCrop_def result_10x10_eq ne ex1 example_context_def)
qed

section \<open>A single period of a periodic crop (claim C4)\<close>




section \<open>Mapping an integer rectangle there and back (claim C8)\<close>

text \<open>
  Claim C8, as amended. Let \<open>r\<close> be a non-empty integer rectangle with coordinates of
  magnitude at most \<open>2^31 - 1\<close>. Every scale-translate matrix whose image of each edge of
  \<open>r\<close>, as \<open>Mapping::map\<close> computes it in double precision, lies within \<open>kRoundEpsilon\<close> of
  that edge maps \<open>r\<close> to itself: the rounding absorbs an error of that size. A
  scale-translate matrix \<open>M\<close> with non-zero scale factors has an inverse, the float product
  of \<open>M\<close> and its inverse is scale-translate, and \<open>r\<close> comes back through that product
  whenever the product meets the edge condition. It does so for every translation by
  floats, where the product is the identity. An empty rectangle is mapped to the canonical
  empty rectangle \<open>[0,0,0,0]\<close>.
\<close>

theorem map_SkIRect_round_trip:
  assumes ne: "\<not> isEmpty r"
    and range: "- 2147483647 \<le> fLeft r" "fRight r \<le> 2147483647"
               "- 2147483647 \<le> fTop r" "fBottom r \<le> 2147483647"
  shows "(isScaleTranslate P \<and>
          \<bar>mapped_edge (kMScaleX P) (kMTransX P) (fLeft r) - of_int (fLeft r)\<bar> \<le> kRoundEpsilon \<and>
          \<bar>mapped_edge (kMScaleX P) (kMTransX P) (fRight r) - of_int (fRight r)\<bar> \<le> kRoundEpsilon \<and>
          \<bar>mapped_edge (kMScaleY P) (kMTransY P) (fTop r) - of_int (fTop r)\<bar> \<le> kRoundEpsilon \<and>
          \<bar>mapped_edge (kMScaleY P) (kMTransY P) (fBottom r) - of_int (fBottom r)\<bar> \<le> kRoundEpsilon
            \<longrightarrow> map_SkIRect r P = r) \<and>
         (isScaleTranslate M \<and> kMScaleX M \<noteq> 0 \<and> kMScaleY M \<noteq> 0 \<longrightarrow>
            (\<exists>Mi. invert M = Some Mi \<and> isScaleTranslate (Concat M Mi) \<and>
               (\<bar>mapped_edge (kMScaleX (Concat M Mi)) (kMTransX (Concat M Mi)) (fLeft r)
                    - of_int (fLeft r)\<bar> \<le> kRoundEpsilon \<and>
                \<bar>mapped_edge (kMScaleX (Concat M Mi)) (kMTransX (Concat M Mi)) (fRight r)
                    - of_int (fRight r)\<bar> \<le> kRoundEpsilon \<and>
                \<bar>mapped_edge (kMScaleY (Concat M Mi)) (kMTransY (Concat M Mi)) (fTop r)
                    - of_int (fTop r)\<bar> \<le> kRoundEpsilon \<and>
                \<bar>mapped_edge (kMScaleY (Concat M Mi)) (kMTransY (Concat M Mi)) (fBottom r)
                    - of_int (fBottom r)\<bar> \<le> kRoundEpsilon
                  \<longrightarrow> map_SkIRect r (Concat M Mi) = r))) \<and>
         (f32 tx = tx \<and> f32 ty = ty \<longrightarrow>
            invert (Translate tx ty) = Some (Translate (- tx) (- ty)) \<and>
            map_SkIRect r (Concat (Translate tx ty) (Translate (- tx) (- ty))) = r) \<and>
         (isEmpty e \<longrightarrow> map_SkIRect e P = MakeEmpty)"
proof -
  have a: "isScaleTranslate P \<and>
          \<bar>mapped_edge (kMScaleX P) (kMTransX P) (fLeft r) - of_int (fLeft r)\<bar> \<le> kRoundEpsilon \<and>
          \<bar>mapped_edge (kMScaleX P) (kMTransX P) (fRight r) - of_int (fRight r)\<bar> \<le> kRoundEpsilon \<and>
          \<bar>mapped_edge (kMScaleY P) (kMTransY P) (fTop r) - of_int (fTop r)\<bar> \<le> kRoundEpsilon \<and>
          \<bar>mapped_edge (kMScaleY P) (kMTransY P) (fBottom r) - of_int (fBottom r)\<bar> \<le> kRoundEpsilon
            \<longrightarrow> map_SkIRect r P = r"
    using map_SkIRect_near_identity[OF ne range] by blast
  have b: "isScaleTranslate M \<and> kMScaleX M \<noteq> 0 \<and> kMScaleY M \<noteq> 0 \<longrightarrow>
            (\<exists>Mi. invert M = Some Mi \<and> isScaleTranslate (Concat M Mi) \<and>
               (\<bar>mapped_edge (kMScaleX (Concat M Mi)) (kMTransX (Concat M Mi)) (fLeft r)
                    - of_int (fLeft r)\<bar> \<le> kRoundEpsilon \<and>
                \<bar>mapped_edge (kMScaleX (Concat M Mi)) (kMTransX (Concat M Mi)) (fRight r)
                    - of_int (fRight r)\<bar> \<le> kRoundEpsilon \<and>
                \<bar>mapped_edge (kMScaleY (Concat M Mi)) (kMTransY (Concat M Mi)) (fTop r)
                    - of_int (fTop r)\<bar> \<le> kRoundEpsilon \<and>
                \<bar>mapped_edge (kMScaleY (Concat M Mi)) (kMTransY (Concat M Mi)) (fBottom r)
                    - of_int (fBottom r)\<bar> \<le> kRoundEpsilon
                  \<longrightarrow> map_SkIRect r (Concat M Mi) = r))"
  proof (intro impI, elim conjE)
    assume m: "isScaleTranslate M" "kMScaleX M \<noteq> 0" "kMScaleY M \<noteq> 0"
    from invert_scale_translate[OF m] obtain Mi where
      mi: "invert M = Some Mi" "isScaleTranslate Mi" by blast
    have st: "isScaleTranslate (Concat M Mi)" by (rule Concat_scale_translate[OF m(1) mi(2)])
    from mi(1) st map_SkIRect_near_identity[OF ne range st]
    show "\<exists>Mi. invert M = Some Mi \<and> isScaleTranslate (Concat M Mi) \<and>
               (\<bar>mapped_edge (kMScaleX (Concat M Mi)) (kMTransX (Concat M Mi)) (fLeft r)
                    - of_int (fLeft r)\<bar> \<le> kRoundEpsilon \<and>
                \<bar>mapped_edge (kMScaleX (Concat M Mi)) (kMTransX (Concat M Mi)) (fRight r)
                    - of_int (fRight r)\<bar> \<le> kRoundEpsilon \<and>
                \<bar>mapped_edge (kMScaleY (Concat M Mi)) (kMTransY (Concat M Mi)) (fTop r)
                    - of_int (fTop r)\<bar> \<le> kRoundEpsilon \<and>
                \<bar>mapped_edge (kMScaleY (Concat M Mi)) (kMTransY (Concat M Mi)) (fBottom r)
                    - of_int (fBottom r)\<bar> \<le> kRoundEpsilon
                  \<longrightarrow> map_SkIRect r (Concat M Mi) = r)"
      by blast
  qed
  have c: "f32 tx = tx \<and> f32 ty = ty \<longrightarrow>
            invert (Translate tx ty) = Some (Translate (- tx) (- ty)) \<and>
            map_SkIRect r (Concat (Translate tx ty) (Translate (- tx) (- ty))) = r"
    using Concat_Translate_inverse[of tx ty] map_SkIRect_identity[OF ne range]
    by (simp add: invert_Translate)
  have d: "isEmpty e \<longrightarrow> map_SkIRect e P = MakeEmpty" by (simp add: map_SkIRect_def)
  show ?thesis by (intro conjI; fact a b c d)
qed

text \<open>
  Claim C8 at the rectangle \<open>[3,4,7,9]\<close>: with a scale that is off by one part in ten
  thousand, with the matrix of scale \<open>(2,4)\<close> and translation \<open>(1,-3)\<close> and its inverse,
  whose float product is the identity, and with the translation by \<open>(5,-7)\<close>.
\<close>

theorem map_SkIRect_round_trip_witness:
  "\<not> isEmpty (MakeLTRB 3 4 7 9) \<and>
   map_SkIRect (MakeLTRB 3 4 7 9) (setScaleTranslate (10001 / 10000) 1 0 0) = MakeLTRB 3 4 7 9 \<and>
   invert (setScaleTranslate 2 4 1 (- 3)) = Some (setScaleTranslate (1 / 2) (1 / 4) (- 1 / 2) (3 / 4)) \<and>
   map_SkIRect (MakeLTRB 3 4 7 9)
     (Concat (setScaleTranslate 2 4 1 (- 3)) (setScaleTranslate (1 / 2) (1 / 4) (- 1 / 2) (3 / 4)))
     = MakeLTRB 3 4 7 9 \<and>
   f32 5 = 5 \<and> f32 (- 7) = - 7 \<and>
   map_SkIRect (MakeLTRB 3 4 7 9) (Concat (Translate 5 (- 7)) (Translate (- 5) (- (- 7))))
     = MakeLTRB 3 4 7 9 \<and>
   map_SkIRect (MakeLTRB 5 5 5 5) (setScaleTranslate (10001 / 10000) 1 0 0) = MakeEmpty"
proof -
  let ?r = "MakeLTRB 3 4 7 9"
  let ?P = "setScaleTranslate (10001 / 10000) 1 0 0"
  let ?M = "setScaleTranslate 2 4 1 (- 3)"
  let ?Mi = "setScaleTranslate (1 / 2) (1 / 4) (- 1 / 2) (3 / 4)"
  have ne: "\<not> isEmpty ?r" by code_simp
  have range: "- 2147483647 \<le> fLeft ?r" "fRight ?r \<le> 2147483647"
    "- 2147483647 \<le> fTop ?r" "fBottom ?r \<le> 2147483647" by code_simp+
  have p: "isScaleTranslate ?P"
    "\<bar>mapped_edge (kMScaleX ?P) (kMTransX ?P) (fLeft ?r) - of_int (fLeft ?r)\<bar> \<le> kRoundEpsilon"
    "\<bar>mapped_edge (kMScaleX ?P) (kMTransX ?P) (fRight ?r) - of_int (fRight ?r)\<bar> \<le> kRoundEpsilon"
    "\<bar>mapped_edge (kMScaleY ?P) (kMTransY ?P) (fTop ?r) - of_int (fTop ?r)\<bar> \<le> kRoundEpsilon"
    "\<bar>mapped_edge (kMScaleY ?P) (kMTransY ?P) (fBottom ?r) - of_int (fBottom ?r)\<bar> \<le> kRoundEpsilon"
    by code_simp+
  have m: "isScaleTranslate ?M" "kMScaleX ?M \<noteq> 0" "kMScaleY ?M \<noteq> 0" by code_simp+
  have i: "invert ?M = Some ?Mi" by code_simp
  have q:
    "\<bar>mapped_edge (kMScaleX (Concat ?M ?Mi)) (kMTransX (Concat ?M ?Mi)) (fLeft ?r)
        - of_int (fLeft ?r)\<bar> \<le> kRoundEpsilon"
    "\<bar>mapped_edge (kMScaleX (Concat ?M ?Mi)) (kMTransX (Concat ?M ?Mi)) (fRight ?r)
        - of_int (fRight ?r)\<bar> \<le> kRoundEpsilon"
    "\<bar>mapped_edge (kMScaleY (Concat ?M ?Mi)) (kMTransY (Concat ?M ?Mi)) (fTop ?r)
        - of_int (fTop ?r)\<bar> \<le> kRoundEpsilon"
    "\<bar>mapped_edge (kMScaleY (Concat ?M ?Mi)) (kMTransY (Concat ?M ?Mi)) (fBottom ?r)
        - of_int (fBottom ?r)\<bar> \<le> kRoundEpsilon"
    by code_simp+
  have t: "f32 5 = 5" "f32 (- 7) = - 7" by code_simp+
  have e: "isEmpty (MakeLTRB 5 5 5 5)" by code_simp
  note T = map_SkIRect_round_trip[OF ne range, of ?P ?M 5 "- 7" "MakeLTRB 5 5 5 5"]
  from T p have c1: "map_SkIRect ?r ?P = ?r" by blast
  from T m i q have c2: "map_SkIRect ?r (Concat ?M ?Mi) = ?r" by auto
  from T t have c3: "map_SkIRect ?r (Concat (Translate 5 (- 7)) (Translate (- 5) (- (- 7)))) = ?r"
    by blast
  from T e have c4: "map_SkIRect (MakeLTRB 5 5 5 5) ?P = MakeEmpty" by blast
  from ne c1 i c2 t c3 c4 show ?thesis by (intro conjI)
qed

text \<open>
  Claim C8 as stated covers every integer rectangle and every scale-translate matrix with
  non-zero scale factors. The matrix with scale \<open>(7,1)\<close> and translation \<open>(123456,0)\<close> has
  float entries. Its inverse has the scale \<open>1/7\<close> rounded to a float, and the product of
  the two, rounded to floats, translates by \<open>-1/128\<close>: it maps \<open>[3,4,7,9]\<close> to
  \<open>[2,4,7,9]\<close>. The empty rectangle \<open>[5,5,5,5]\<close> is mapped to \<open>[0,0,0,0]\<close> by the first
  branch of \<open>Mapping::map\<close>, whatever the matrix.
\<close>

theorem map_SkIRect_round_trip_counterexample:
  "f32 7 = 7 \<and> f32 123456 = 123456 \<and>
   invert (setScaleTranslate 7 1 123456 0) =
     Some (setScaleTranslate (9586981 / 67108864) 1 (- (9029925 / 512)) 0) \<and>
   Concat (setScaleTranslate 7 1 123456 0)
     (setScaleTranslate (9586981 / 67108864) 1 (- (9029925 / 512)) 0) =
     setScaleTranslate 1 1 (- (1 / 128)) 0 \<and>
   map_SkIRect (MakeLTRB 3 4 7 9)
     (Concat (setScaleTranslate 7 1 123456 0)
        (setScaleTranslate (9586981 / 67108864) 1 (- (9029925 / 512)) 0))
     = MakeLTRB 2 4 7 9 \<and>
   MakeLTRB 2 4 7 9 \<noteq> MakeLTRB 3 4 7 9 \<and>
   map_SkIRect (MakeLTRB 5 5 5 5)
     (Concat (setScaleTranslate 7 1 123456 0)
        (setScaleTranslate (9586981 / 67108864) 1 (- (9029925 / 512)) 0))
     \<noteq> MakeLTRB 5 5 5 5"
  by code_simp

section \<open>Composition of colour filters (claim C7)\<close>

text \<open>
  Claim C7, as amended. When \<open>applyColorFilter\<close> reaches its composition step, that is
  when the desired output is not empty, the receiver has an image, its layer bounds overlap
  the desired output and, for a filter that affects transparent black, no layer crop is
  required, then the result is the receiver with new layer bounds and with the colour
  filter \<open>Compose(cf, existing)\<close>, in which \<open>cf\<close> runs after the existing filter:
  \<open>composed(x) = cf(existing(x))\<close>; without an existing filter it is \<open>cf\<close>. No surface is
  created.
\<close>

theorem applyColorFilter_composition:
  assumes "\<not> isEmpty (desiredOutput ctx)"
    and "fImage this = Some img"
    and "intersect (fLayerBounds this) (desiredOutput ctx) = Some bounds"
    and "affectsTransparentBlack cf \<longrightarrow>
           \<not> kRequiresLayerCrop (analyzeBounds ctx this img SkMatrix_I (desiredOutput ctx))"
  shows "applyColorFilter ctx this cf stats =
           (this\<lparr>fLayerBounds := (if affectsTransparentBlack cf then desiredOutput ctx else bounds),
                  fColorFilter := Compose (Some cf) (fColorFilter this)\<rparr>, stats) \<and>
         (\<forall>existing. fColorFilter this = Some existing \<longrightarrow>
            (\<exists>composed. Compose (Some cf) (fColorFilter this) = Some composed \<and>
                        (\<forall>x. composed x = cf (existing x)))) \<and>
         (fColorFilter this = None \<longrightarrow> Compose (Some cf) (fColorFilter this) = Some cf)"
  using assms by (auto simp add: applyColorFilter_def Compose_def)

text \<open>
  Claim C7 for the 10 by 10 image with the inverting filter, to which the filter that
  swaps red and blue is applied with desired output \<open>[5,5,30,30]\<close>.
\<close>

theorem applyColorFilter_composition_witness:
  "\<not> affectsTransparentBlack swap_red_blue \<and>
   fColorFilter (fst (applyColorFilter (example_context (MakeLTRB 5 5 30 30))
      ((result_10x10 0)\<lparr>fColorFilter := Some invert_color\<rparr>) swap_red_blue 0))
     = Some (\<lambda>x. swap_red_blue (invert_color x)) \<and>
   fLayerBounds (fst (applyColorFilter (example_context (MakeLTRB 5 5 30 30))
      ((result_10x10 0)\<lparr>fColorFilter := Some invert_color\<rparr>) swap_red_blue 0))
     = MakeLTRB 5 5 10 10"
  using applyColorFilter_composition[of "example_context (MakeLTRB 5 5 30 30)"
      "(result_10x10 0)\<lparr>fColorFilter := Some invert_color\<rparr>" "image_10x10 0"
      "MakeLTRB 5 5 10 10" swap_red_blue 0]
  by (simp add: example_context_def result_10x10_fields i1 i2 not_affects_swap Compose_def)

text \<open>
  Claim C7 as stated covers every receiver with a colour filter. When the receiver's layer
  bounds \<open>[0,0,10,10]\<close> miss the desired output \<open>[20,20,30,30]\<close> and the new filter
  affects transparent black, the result is a new one-pixel image of that filter's colour,
  clamp-tiled, and carries no colour filter at all.
\<close>

theorem applyColorFilter_solid_color_counterexample:
  "fColorFilter ((result_10x10 (0::nat))\<lparr>fColorFilter := Some swap_red_blue\<rparr>) = Some swap_red_blue \<and>
   fColorFilter (fst (applyColorFilter (example_context (MakeLTRB 20 20 30 30))
      ((result_10x10 0)\<lparr>fColorFilter := Some swap_red_blue\<rparr>) invert_color 0)) = None \<and>
   fImage (fst (applyColorFilter (example_context (MakeLTRB 20 20 30 30))
      ((result_10x10 0)\<lparr>fColorFilter := Some swap_red_blue\<rparr>) invert_color 0)) \<noteq> None"
  by (simp add: applyColorFilter_def example_context_fields result_10x10_fields i3 i4 i5 i6
      affects_invert updateTileMode_def snap_def FilterResult_of_def Let_def)


section \<open>Layer bounds of tiled results (claim C3)\<close>

text \<open>
  Claim C3, as amended. A result with an image whose tile mode \<open>updateTileMode\<close> has just
  set to a mode other than decal has the desired output as its layer bounds. So has every
  result with an image that \<open>applyCrop\<close> returns for a requested mode other than decal,
  when the crop is not collapsed to a periodic transform and the fitted crop does not
  contain the desired output (the tile mode is then the requested one); and so has every
  result with an image that \<open>applyColorFilter\<close> returns for a filter that affects
  transparent black.
\<close>

theorem layerBounds_of_tiled_results:
  "(fImage this \<noteq> None \<and> tileMode \<noteq> kDecal \<longrightarrow>
      fLayerBounds (updateTileMode ctx tileMode this) = desiredOutput ctx \<and>
      fTileMode (updateTileMode ctx tileMode this) = tileMode) \<and>
   (tileMode \<noteq> kDecal \<and>
    periodic_axis_transform tileMode (relevantSubset crop (desiredOutput ctx) tileMode)
      (desiredOutput ctx) = None \<and>
    \<not> contains (relevantSubset crop (desiredOutput ctx) tileMode) (desiredOutput ctx) \<and>
    fImage (fst (applyCrop ctx this crop tileMode stats)) \<noteq> None \<longrightarrow>
      fLayerBounds (fst (applyCrop ctx this crop tileMode stats)) = desiredOutput ctx \<and>
      fTileMode (fst (applyCrop ctx this crop tileMode stats)) = tileMode) \<and>
   (affectsTransparentBlack cf \<and>
    fImage (fst (applyColorFilter ctx this cf stats)) \<noteq> None \<longrightarrow>
      fLayerBounds (fst (applyColorFilter ctx this cf stats)) = desiredOutput ctx)"
  using updateTileMode_bounds[of this tileMode ctx]
    applyCrop_non_decal_bounds[of tileMode crop ctx this stats]
    applyColorFilter_affecting_bounds[of cf ctx this stats]
  by blast

text \<open>
  Claim C3 for the 10 by 10 image at the origin with desired output \<open>[20,20,30,30]\<close>:
  cropped to \<open>[0,0,10,10]\<close> with clamp tiling, and filtered by colour inversion.
\<close>

theorem layerBounds_of_tiled_results_witness:
  "fImage (result_10x10 (0::nat)) \<noteq> None \<and>
   affectsTransparentBlack invert_color \<and>
   fImage (fst (applyCrop (example_context (MakeLTRB 20 20 30 30)) (result_10x10 0)
                  (MakeLTRB 0 0 10 10) kClamp 0)) \<noteq> None \<and>
   fLayerBounds (fst (applyCrop (example_context (MakeLTRB 20 20 30 30)) (result_10x10 0)
                  (MakeLTRB 0 0 10 10) kClamp 0)) = MakeLTRB 20 20 30 30 \<and>
   fImage (fst (applyColorFilter (example_context (MakeLTRB 20 20 30 30)) (result_10x10 0)
                  invert_color 0)) \<noteq> None \<and>
   fLayerBounds (fst (applyColorFilter (example_context (MakeLTRB 20 20 30 30)) (result_10x10 0)
                  invert_color 0)) = MakeLTRB 20 20 30 30"
proof -
  let ?ctx = "example_context (MakeLTRB 20 20 30 30)"
  have d: "desiredOutput ?ctx = MakeLTRB 20 20 30 30" by (simp add: example_context_fields)
  have a: "fImage (fst (applyCrop ?ctx (result_10x10 0) (MakeLTRB 0 0 10 10) kClamp 0)) \<noteq> None"
    by (simp add: clamp_example[OF d])
  have b: "fImage (fst (applyColorFilter ?ctx (result_10x10 0) invert_color 0)) \<noteq> None"
    by (simp add: applyColorFilter_def example_context_fields result_10x10_fields i3 i4 i5 i6
        affects_invert updateTileMode_def snap_def FilterResult_of_def Let_def)
  have c: "\<not> contains (relevantSubset (MakeLTRB 0 0 10 10) (desiredOutput ?ctx) kClamp)
             (desiredOutput ?ctx)"
    by (simp add: d ex3 ex6)
  show ?thesis
    using layerBounds_of_tiled_results[of "result_10x10 0" kClamp ?ctx "MakeLTRB 0 0 10 10" 0
        invert_color] a b c
    by (simp add: d ex5 affects_invert result_10x10_fields)
qed

text \<open>
  Claim C3 as stated covers every result of an operation. In the desired output
  \<open>[0,0,30,30]\<close>, crop the 10 by 10 image to \<open>[0,0,10,10]\<close> with clamp tiling and then
  crop the result to \<open>[0,0,20,20]\<close> with decal tiling. The decal crop only moves the layer
  bounds: the result keeps the clamp tile mode, has no colour filter, and its layer bounds
  \<open>[0,0,20,20]\<close> differ from the desired output.
\<close>

theorem layer_bounds_invariant_counterexample:
  "fImage (fst (applyCrop (example_context (MakeLTRB 0 0 30 30))
      (fst (applyCrop (example_context (MakeLTRB 0 0 30 30)) (result_10x10 0)
              (MakeLTRB 0 0 10 10) kClamp 0))
      (MakeLTRB 0 0 20 20) kDecal 0)) \<noteq> None \<and>
   fTileMode (fst (applyCrop (example_context (MakeLTRB 0 0 30 30))
      (fst (applyCrop (example_context (MakeLTRB 0 0 30 30)) (result_10x10 0)
              (MakeLTRB 0 0 10 10) kClamp 0))
      (MakeLTRB 0 0 20 20) kDecal 0)) = kClamp \<and>
   fColorFilter (fst (applyCrop (example_context (MakeLTRB 0 0 30 30))
      (fst (applyCrop (example_context (MakeLTRB 0 0 30 30)) (result_10x10 0)
              (MakeLTRB 0 0 10 10) kClamp 0))
      (MakeLTRB 0 0 20 20) kDecal 0)) = None \<and>
   fLayerBounds (fst (applyCrop (example_context (MakeLTRB 0 0 30 30))
      (fst (applyCrop (example_context (MakeLTRB 0 0 30 30)) (result_10x10 0)
              (MakeLTRB 0 0 10 10) kClamp 0))
      (MakeLTRB 0 0 20 20) kDecal 0))
     \<noteq> desiredOutput (example_context (MakeLTRB 0 0 30 30))"
proof -
  let ?ctx = "example_context (MakeLTRB 0 0 30 30)"
  have d: "desiredOutput ?ctx = MakeLTRB 0 0 30 30" by (simp add: example_context_fields)
  have a: "applyCrop ?ctx (clamped_10x10 0) (MakeLTRB 0 0 20 20) kDecal 0 =
      apply_fitted_crop ?ctx (clamped_10x10 0) (image_10x10 0) kDecal (MakeLTRB 0 0 20 20) False 0"
    by (subst applyCrop_late[where img = "image_10x10 0" and ?c0.0 = "MakeLTRB 0 0 20 20"
          and ?c1.0 = "MakeLTRB 0 0 20 20"])
       (simp_all add: d j1 k1 k2 k3 k4 clamped_10x10_fields fit_crop_def)
  have b: "apply_fitted_crop ?ctx (clamped_10x10 0) (image_10x10 0) kDecal (MakeLTRB 0 0 20 20) False 0
      = ((clamped_10x10 0)\<lparr>fLayerBounds := MakeLTRB 0 0 20 20\<rparr>, 0)"
    by (simp add: apply_fitted_crop_def clamped_10x10_fields nearly_Translate_0 k5)
  have ne: "MakeLTRB 0 0 20 20 \<noteq> MakeLTRB 0 0 30 30" by (simp add: MakeLTRB_def)
  show ?thesis
    by (simp add: first_crop[OF d] a b clamped_10x10_fields d ne)
qed

end
